theory Spec2Isabelle
  imports Complex_Main "HOL-Library.Word"
begin

section \<open>Data model\<close>

text \<open>
  The gRPC broker front-end of maestro (\<^verbatim>\<open>cmd/maestro/server/grpc_server.go\<close>):
  \<^verbatim>\<open>Publish\<close>, \<^verbatim>\<open>Subscribe\<close>, the wire codec \<^verbatim>\<open>decode\<close>/\<^verbatim>\<open>encode\<close> and the
  ingress side of the status resync, \<^verbatim>\<open>respondResyncStatusRequest\<close> with
  \<^verbatim>\<open>findStatusHash\<close>.

  Go's \<^verbatim>\<open>int32\<close> is a 32-bit word read as two's complement (\<open>sint\<close>). A point in
  time is an integer. A JSON document held in an \<^verbatim>\<open>interface{}\<close> is a value of
  \<open>json\<close>; \<^verbatim>\<open>datatypes.JSONMap\<close> (\<^verbatim>\<open>map[string]interface{}\<close>) is a map from keys to
  such values.
\<close>

type_synonym int32 = "32 word"

type_synonym Time = int

datatype json =
    JNull
  | JBool bool
  | JNumber rat
  | JString string
  | JArray "json list"
  | JObject "(string \<times> json) list"

type_synonym JSONMap = "string \<rightharpoonup> json"

text \<open>
  \<^verbatim>\<open>api.Resource\<close> with its embedded \<^verbatim>\<open>api.Meta\<close> flattened: \<open>ID\<close> and
  \<open>DeletedAt\<close> (the \<^verbatim>\<open>Time\<close> of \<^verbatim>\<open>Meta.DeletedAt\<close>, \<open>None\<close> for Go's zero time)
  come from \<^verbatim>\<open>Meta\<close>. \<^verbatim>\<open>CreatedAt\<close> and \<^verbatim>\<open>UpdatedAt\<close> are maintained by the store
  and never touched by the server. \<^verbatim>\<open>ResourceType\<close> is a Go string type, so a
  resource built without a type carries the empty string.
\<close>

type_synonym ResourceType = string

definition ResourceTypeSingle :: ResourceType where
  "ResourceTypeSingle = ''Single''"

definition ResourceTypeBundle :: ResourceType where
  "ResourceTypeBundle = ''Bundle''"

record Resource =
  ID :: string
  DeletedAt :: "Time option"
  Version :: int32
  Source :: string
  ConsumerID :: string
  Type :: ResourceType
  Manifest :: JSONMap
  Status :: JSONMap

text \<open>\<^verbatim>\<open>metav1.Condition\<close>, \<^verbatim>\<open>api.ReconcileStatus\<close> and \<^verbatim>\<open>api.ResourceStatus\<close>;
  a nil \<^verbatim>\<open>*ReconcileStatus\<close> is \<open>None\<close>.\<close>

record Condition =
  ConditionType :: string
  ConditionStatus :: string
  Reason :: string
  Message :: string

record ReconcileStatus =
  ObservedVersion :: int32
  SequenceID :: string
  Conditions :: "Condition list"

record ResourceStatus =
  ContentStatus :: JSONMap
  ReconcileStatus :: "ReconcileStatus option"

text \<open>The status payloads of \<^verbatim>\<open>workpayload\<close> and \<^verbatim>\<open>workv1\<close> that \<^verbatim>\<open>encode\<close> builds.\<close>

datatype ValueType = Integer | String | Boolean | JsonRaw

record FieldValue =
  FieldType :: ValueType
  FieldJsonRaw :: "string option"

record FeedbackValue =
  Name :: string
  Value :: FieldValue

record ManifestCondition =
  ManifestConditions :: "Condition list"
  StatusFeedbacks :: "FeedbackValue list"

record ManifestStatus =
  StatusConditions :: "Condition list"
  StatusOfManifest :: "ManifestCondition option"

record ManifestBundleStatus =
  BundleConditions :: "Condition list"
  BundleResourceStatus :: "ManifestCondition list"

text \<open>The request payloads that \<^verbatim>\<open>decode\<close> reads, and the \<^verbatim>\<open>ManifestWork\<close> it
  builds for a bundle. Manifests, delete options and manifest configs are opaque JSON.\<close>

record ManifestPayload =
  ManifestObject :: JSONMap

record ManifestBundlePayload =
  Manifests :: "json list"
  DeleteOption :: "json option"
  ManifestConfigs :: "json list"

record ManifestWork =
  Kind :: string
  APIVersion :: string
  WorkName :: string
  WorkUID :: string
  WorkloadManifests :: "json list"
  WorkDeleteOption :: "json option"
  WorkManifestConfigs :: "json list"

text \<open>CloudEvents: an attribute value of the SDK's type system, the parsed event type
  of the OCM SDK (\<^verbatim>\<open>types.CloudEventsType\<close>) and the event itself. The event id and
  time, a fresh UUID and the wall clock, are left out.\<close>

datatype ce_value =
    CEBool bool
  | CEInteger int32
  | CEString string
  | CEBinary string
  | CEURI string
  | CEURIRef string
  | CETimestamp Time

record CloudEventsDataType =
  DataGroup :: string
  DataVersion :: string
  DataResource :: string

record CloudEventsType =
  CloudEventsDataType :: CloudEventsDataType
  SubResource :: string
  Action :: string

record Event =
  EventType :: string
  EventSource :: string
  Extensions :: "string \<rightharpoonup> ce_value"
  Data :: string

record ResourceStatusHash =
  ResourceID :: string
  StatusHash :: string

text \<open>Every \<^verbatim>\<open>fmt.Errorf\<close> of the server is a constructor; a nil pointer
  dereference is \<open>NilPointerPanic\<close>. The three "failed to get ... extension" errors of
  \<^verbatim>\<open>decode\<close> are \<open>MalformedEvent\<close> with the extension's name, "unsupported cloudevents
  data type" is \<open>UnsupportedDataType\<close>, and "resource status not found in content
  status" is \<open>StatusShapeMismatch\<close>.\<close>

datatype error =
    FailedConvertProtobuf
  | FailedParseEventType string
  | FailedRespondResync error
  | FailedDecode error
  | FailedCreate
  | FailedGet
  | FailedUpdate
  | FailedMarkAsDeleting
  | UnsupportedAction string
  | MalformedEvent string
  | InvalidDeletionTimestamp
  | FailedUnmarshalEventData
  | FailedMarshalManifestWork
  | FailedUnmarshalManifestWork
  | UnsupportedDataType CloudEventsDataType
  | FailedConvertResourceStatus
  | StatusShapeMismatch
  | FailedMarshalContentStatus
  | FailedUnmarshalContentStatus
  | FailedEncodeStatus
  | FailedListResources
  | FailedDecodeResyncRequest
  | InvalidSubscriptionTopic string
  | NilPointerPanic

text \<open>
  What \<^verbatim>\<open>grpc-go\<close> looks for in the error a handler returns is a gRPC status, the
  \<^verbatim>\<open>GRPCStatus\<close> method of the error value; it surfaces the code of that status, and the
  code \<^verbatim>\<open>Unknown\<close> when there is none. Every error of the server is a value of
  \<^verbatim>\<open>fmt.Errorf\<close> with the verbs \<^verbatim>\<open>%v\<close>, \<^verbatim>\<open>%s\<close> and \<^verbatim>\<open>%q\<close> only, which has no such method and
  wraps no other error, and the file imports neither \<^verbatim>\<open>grpc/status\<close> nor \<^verbatim>\<open>grpc/codes\<close>:
  none of them carries a status.
\<close>

datatype Code = OK | Unknown | InvalidArgument | NotFound | AlreadyExists | Internal

definition GRPCStatus :: "error \<Rightarrow> Code option" where
  "GRPCStatus err = None"

section \<open>Constants of the SDKs\<close>

definition ExtensionClusterName :: string where
  "ExtensionClusterName = ''clustername''"

definition ExtensionResourceID :: string where
  "ExtensionResourceID = ''resourceid''"

definition ExtensionResourceVersion :: string where
  "ExtensionResourceVersion = ''resourceversion''"

definition ExtensionDeletionTimestamp :: string where
  "ExtensionDeletionTimestamp = ''deletiontimestamp''"

definition ExtensionOriginalSource :: string where
  "ExtensionOriginalSource = ''originalsource''"

definition ManifestEventDataType :: CloudEventsDataType where
  "ManifestEventDataType =
     \<lparr>DataGroup = ''io.open-cluster-management.works'', DataVersion = ''v1alpha1'',
      DataResource = ''manifests''\<rparr>"

definition ManifestBundleEventDataType :: CloudEventsDataType where
  "ManifestBundleEventDataType =
     \<lparr>DataGroup = ''io.open-cluster-management.works'', DataVersion = ''v1alpha1'',
      DataResource = ''manifestbundles''\<rparr>"

definition SubResourceStatus :: string where
  "SubResourceStatus = ''status''"

definition CreateRequestAction :: string where
  "CreateRequestAction = ''create_request''"

definition UpdateRequestAction :: string where
  "UpdateRequestAction = ''update_request''"

definition DeleteRequestAction :: string where
  "DeleteRequestAction = ''delete_request''"

definition ResyncRequestAction :: string where
  "ResyncRequestAction = ''resync_request''"

section \<open>What the server calls outside of its own file\<close>

text \<open>
  The functions \<^verbatim>\<open>grpc_server.go\<close> calls in other packages are parameters of the
  model, one field each; a Go error return is \<open>None\<close>. Nothing is assumed of them, so
  a theorem about the server holds whatever they compute, and a theorem that needs a
  property of one of them states it as a hypothesis.
  \<^item> \<open>ToEvent\<close>: \<^verbatim>\<open>binding.ToEvent\<close> on the protobuf message of a publish request.
  \<^item> \<open>ParseCloudEventsType\<close>: \<^verbatim>\<open>types.ParseCloudEventsType\<close>.
  \<^item> \<open>ToString\<close>, \<open>ToInteger\<close>, \<open>ToTime\<close>: the conversions of the CloudEvents SDK
    (\<^verbatim>\<open>cetypes\<close>). The first two are applied to the result of a map lookup, which is Go's
    nil, here \<open>None\<close>, for a missing key; the third to a value that exists.
  \<^item> \<open>NewEvent\<close>: the event builder of the OCM SDK, \<^verbatim>\<open>types.NewEventBuilder\<close> with
    \<^verbatim>\<open>WithResourceID\<close>, \<^verbatim>\<open>WithResourceVersion\<close>, \<^verbatim>\<open>WithClusterName\<close>, \<^verbatim>\<open>WithOriginalSource\<close>
    and \<^verbatim>\<open>NewEvent\<close>; its arguments are the source, the event type, the resource id,
    the resource version (\<^verbatim>\<open>int64(resource.Version)\<close>, the same number), the cluster
    name and the original source.
  \<^item> \<open>DataAsManifest\<close>, \<open>DataAsManifestBundle\<close>: \<^verbatim>\<open>evt.DataAs\<close> at the two payload
    types; \<open>UnmarshalJSONMap\<close>: \<^verbatim>\<open>json.Unmarshal\<close> into a \<^verbatim>\<open>JSONMap\<close>;
    \<open>UnmarshalManifestConditions\<close>: \<^verbatim>\<open>json.Unmarshal\<close> into a
    \<^verbatim>\<open>[]workv1.ManifestCondition\<close>.
  \<^item> \<open>MarshalManifestWork\<close>, \<open>MarshalJSON\<close>, \<open>MarshalJSONMap\<close>, \<open>MarshalManifestStatus\<close>,
    \<open>MarshalManifestBundleStatus\<close>: \<^verbatim>\<open>json.Marshal\<close> at the types the server marshals.
    They are total: \<^verbatim>\<open>encoding/json\<close> fails on channels, functions, cycles and
    non-finite floats only, and none of these types has such a value.
  \<^item> \<open>HasManifestBundle\<close>: the method of \<^verbatim>\<open>api.Resource\<close> that tells a bundle from a
    single manifest.
  \<^item> \<open>JSONMapStatusToResourceStatus\<close>: the conversion of \<^verbatim>\<open>pkg/api\<close>; it returns a
    pointer, \<open>Some None\<close> is a nil pointer returned without an error.
  \<^item> \<open>DecodeStatusResyncRequest\<close>: \<^verbatim>\<open>payload.DecodeStatusResyncRequest\<close>, the hash list
    of a resync request.
  \<^item> \<open>ResourceStatusHashGetter\<close>: \<^verbatim>\<open>cloudevents.ResourceStatusHashGetter\<close>, the
    canonical hash of a resource's stored status.
\<close>

record 'pb externals =
  ToEvent :: "'pb \<Rightarrow> Event option"
  ParseCloudEventsType :: "string \<Rightarrow> CloudEventsType option"
  ToString :: "ce_value option \<Rightarrow> string option"
  ToInteger :: "ce_value option \<Rightarrow> int32 option"
  ToTime :: "ce_value \<Rightarrow> Time option"
  NewEvent :: "string \<Rightarrow> CloudEventsType \<Rightarrow> string \<Rightarrow> int32 \<Rightarrow> string \<Rightarrow> string \<Rightarrow> Event"
  DataAsManifest :: "string \<Rightarrow> ManifestPayload option"
  DataAsManifestBundle :: "string \<Rightarrow> ManifestBundlePayload option"
  UnmarshalJSONMap :: "string \<Rightarrow> JSONMap option"
  UnmarshalManifestConditions :: "string \<Rightarrow> ManifestCondition list option"
  MarshalManifestWork :: "ManifestWork \<Rightarrow> string"
  MarshalJSON :: "json \<Rightarrow> string"
  MarshalJSONMap :: "JSONMap \<Rightarrow> string"
  MarshalManifestStatus :: "ManifestStatus \<Rightarrow> string"
  MarshalManifestBundleStatus :: "ManifestBundleStatus \<Rightarrow> string"
  HasManifestBundle :: "Resource \<Rightarrow> bool"
  JSONMapStatusToResourceStatus :: "JSONMap \<Rightarrow> ResourceStatus option option"
  DecodeStatusResyncRequest :: "Event \<Rightarrow> ResourceStatusHash list option"
  ResourceStatusHashGetter :: "Resource \<Rightarrow> string option"

section \<open>The wire codec\<close>

text \<open>
  \<^verbatim>\<open>decode\<close> translates a CloudEvent to a resource. The checks run in the order of
  the source: the three required extensions, the optional deletion timestamp, and
  only then the switch on the data type. The resource literal sets \<^verbatim>\<open>Source\<close>,
  \<^verbatim>\<open>ConsumerID\<close>, \<^verbatim>\<open>Version\<close> and \<^verbatim>\<open>Meta.ID\<close>; every other field keeps Go's zero
  value. \<^verbatim>\<open>int32(resourceVersion)\<close> converts an \<^verbatim>\<open>int32\<close> to itself.
\<close>

definition decode :: "'pb externals \<Rightarrow> CloudEventsDataType \<Rightarrow> Event \<Rightarrow> error + Resource" where
  "decode x eventDataType evt =
     (let evtExtensions = Extensions evt in
      case ToString x (evtExtensions ExtensionClusterName) of
        None \<Rightarrow> Inl (MalformedEvent ExtensionClusterName)
      | Some clusterName \<Rightarrow>
      (case ToString x (evtExtensions ExtensionResourceID) of
        None \<Rightarrow> Inl (MalformedEvent ExtensionResourceID)
      | Some resourceID \<Rightarrow>
      (case ToInteger x (evtExtensions ExtensionResourceVersion) of
        None \<Rightarrow> Inl (MalformedEvent ExtensionResourceVersion)
      | Some resourceVersion \<Rightarrow>
        let resource =
              \<lparr>ID = resourceID, DeletedAt = None, Version = resourceVersion,
               Source = EventSource evt, ConsumerID = clusterName, Type = [],
               Manifest = Map.empty, Status = Map.empty\<rparr>
        in
        (case (case evtExtensions ExtensionDeletionTimestamp of
                 None \<Rightarrow> Inr resource
               | Some deletionTimestampValue \<Rightarrow>
                  (case ToTime x deletionTimestampValue of
                     None \<Rightarrow> Inl InvalidDeletionTimestamp
                   | Some deletionTimestamp \<Rightarrow>
                       Inr (resource\<lparr>DeletedAt := Some deletionTimestamp\<rparr>))) of
           Inl e \<Rightarrow> Inl e
         | Inr resource \<Rightarrow>
            if eventDataType = ManifestEventDataType then
              (case DataAsManifest x (Data evt) of
                 None \<Rightarrow> Inl FailedUnmarshalEventData
               | Some manifest \<Rightarrow> Inr (resource\<lparr>Manifest := ManifestObject manifest\<rparr>))
            else if eventDataType = ManifestBundleEventDataType then
              (case DataAsManifestBundle x (Data evt) of
                 None \<Rightarrow> Inl FailedUnmarshalEventData
               | Some manifestBundle \<Rightarrow>
                  let work =
                        \<lparr>Kind = ''ManifestWork'',
                         APIVersion = ''work.open-cluster-management.io/v1'',
                         WorkName = resourceID, WorkUID = resourceID,
                         WorkloadManifests = Manifests manifestBundle,
                         WorkDeleteOption = DeleteOption manifestBundle,
                         WorkManifestConfigs = ManifestConfigs manifestBundle\<rparr>;
                      workJSON = MarshalManifestWork x work
                  in
                  (case UnmarshalJSONMap x workJSON of
                     None \<Rightarrow> Inl FailedUnmarshalManifestWork
                   | Some m \<Rightarrow> Inr (resource\<lparr>Manifest := m\<rparr>)))
            else Inl (UnsupportedDataType eventDataType)))))"

text \<open>
  \<^verbatim>\<open>encode\<close> translates a resource to a CloudEvent. \<open>encodeEventType\<close> is its local
  \<^verbatim>\<open>eventType\<close>. On the bundle branch a nil \<^verbatim>\<open>ReconcileStatus\<close> is guarded and leaves
  the conditions empty; on the single branch the content status is marshalled first
  and \<^verbatim>\<open>resourceStatus.ReconcileStatus.Conditions\<close> is then read without a guard, so a
  nil \<^verbatim>\<open>ReconcileStatus\<close> panics. The marshalling calls are total (see above), so the
  error returns that follow \<^verbatim>\<open>json.Marshal\<close> and \<^verbatim>\<open>SetData\<close> in the source cannot be
  taken and \<open>SetData\<close> is the update of \<open>Data\<close>.
\<close>

definition encodeEventType :: "'pb externals \<Rightarrow> Resource \<Rightarrow> CloudEventsType" where
  "encodeEventType x resource =
     \<lparr>CloudEventsDataType =
        (if HasManifestBundle x resource then ManifestBundleEventDataType
         else ManifestEventDataType),
      SubResource = SubResourceStatus,
      Action = UpdateRequestAction\<rparr>"

definition encode :: "'pb externals \<Rightarrow> Resource \<Rightarrow> error + Event" where
  "encode x resource =
     (let eventType = encodeEventType x resource;
          evt = NewEvent x (Source resource) eventType (ID resource) (Version resource)
                  (ConsumerID resource) (Source resource)
      in
      case JSONMapStatusToResourceStatus x (Status resource) of
        None \<Rightarrow> Inl FailedConvertResourceStatus
      | Some None \<Rightarrow> Inl NilPointerPanic
      | Some (Some resourceStatus) \<Rightarrow>
          if HasManifestBundle x resource then
            (let conditions =
                   (case ReconcileStatus resourceStatus of
                      None \<Rightarrow> []
                    | Some reconcileStatus \<Rightarrow> Conditions reconcileStatus)
             in
             case ContentStatus resourceStatus ''ManifestStatus'' of
               None \<Rightarrow> Inl StatusShapeMismatch
             | Some manifestStatus \<Rightarrow>
                 (let manifestStatusJSON = MarshalJSON x manifestStatus in
                  case UnmarshalManifestConditions x manifestStatusJSON of
                    None \<Rightarrow> Inl FailedUnmarshalContentStatus
                  | Some resourceStatusList \<Rightarrow>
                      Inr (evt\<lparr>Data := MarshalManifestBundleStatus x
                             \<lparr>BundleConditions = conditions,
                              BundleResourceStatus = resourceStatusList\<rparr>\<rparr>)))
          else
            (let contentStatusJSONStr = MarshalJSONMap x (ContentStatus resourceStatus) in
             case ReconcileStatus resourceStatus of
               None \<Rightarrow> Inl NilPointerPanic
             | Some reconcileStatus \<Rightarrow>
                 Inr (evt\<lparr>Data := MarshalManifestStatus x
                        \<lparr>StatusConditions = Conditions reconcileStatus,
                         StatusOfManifest =
                           Some \<lparr>ManifestConditions = Conditions reconcileStatus,
                                 StatusFeedbacks =
                                   [\<lparr>Name = ''status'',
                                     Value = \<lparr>FieldType = JsonRaw,
                                              FieldJsonRaw = Some contentStatusJSONStr\<rparr>\<rparr>]\<rparr>\<rparr>\<rparr>)))"

section \<open>The resource service and the broadcaster\<close>

text \<open>
  \<^verbatim>\<open>services.ResourceService\<close> is an interface; its implementation is not part of the
  server. The server is modelled over any implementation: a record of the five
  methods it calls, working on a store of type \<open>'st\<close>. A Go error return is \<open>None\<close>
  (\<open>False\<close> for \<^verbatim>\<open>MarkAsDeleting\<close>, which returns an error only).

  The state of the server is the store together with two logs that make its effects
  observable: \<open>calls\<close>, the calls it made to the resource service, in order, and
  \<open>broadcasts\<close>, the resources it handed to \<^verbatim>\<open>eventBroadcaster.Broadcast\<close>, in order.
  The delivery of a broadcast to the subscribers is the broadcaster's business
  (\<^verbatim>\<open>pkg/event\<close>) and not modelled.
\<close>

record 'st ResourceService =
  Get :: "'st \<Rightarrow> string \<Rightarrow> Resource option"
  Create :: "'st \<Rightarrow> Resource \<Rightarrow> 'st \<times> Resource option"
  Update :: "'st \<Rightarrow> Resource \<Rightarrow> 'st \<times> Resource option"
  MarkAsDeleting :: "'st \<Rightarrow> string \<Rightarrow> 'st \<times> bool"
  FindBySource :: "'st \<Rightarrow> string \<Rightarrow> Resource list option"

datatype call =
    CallGet string
  | CallCreate Resource
  | CallUpdate Resource
  | CallMarkAsDeleting string
  | CallFindBySource string

record 'st server =
  store :: 'st
  calls :: "call list"
  broadcasts :: "Resource list"

definition Broadcast :: "Resource \<Rightarrow> 'st server \<Rightarrow> 'st server" where
  "Broadcast obj s = s\<lparr>broadcasts := broadcasts s @ [obj]\<rparr>"

definition callGet :: "'st ResourceService \<Rightarrow> 'st server \<Rightarrow> string \<Rightarrow> Resource option \<times> 'st server" where
  "callGet svc s rid = (Get svc (store s) rid, s\<lparr>calls := calls s @ [CallGet rid]\<rparr>)"

definition callCreate :: "'st ResourceService \<Rightarrow> 'st server \<Rightarrow> Resource \<Rightarrow> Resource option \<times> 'st server" where
  "callCreate svc s res =
     (case Create svc (store s) res of
        (st, r) \<Rightarrow> (r, s\<lparr>store := st, calls := calls s @ [CallCreate res]\<rparr>))"

definition callUpdate :: "'st ResourceService \<Rightarrow> 'st server \<Rightarrow> Resource \<Rightarrow> Resource option \<times> 'st server" where
  "callUpdate svc s res =
     (case Update svc (store s) res of
        (st, r) \<Rightarrow> (r, s\<lparr>store := st, calls := calls s @ [CallUpdate res]\<rparr>))"

definition callMarkAsDeleting :: "'st ResourceService \<Rightarrow> 'st server \<Rightarrow> string \<Rightarrow> bool \<times> 'st server" where
  "callMarkAsDeleting svc s rid =
     (case MarkAsDeleting svc (store s) rid of
        (st, ok) \<Rightarrow> (ok, s\<lparr>store := st, calls := calls s @ [CallMarkAsDeleting rid]\<rparr>))"

definition callFindBySource :: "'st ResourceService \<Rightarrow> 'st server \<Rightarrow> string \<Rightarrow> Resource list option \<times> 'st server" where
  "callFindBySource svc s src =
     (FindBySource svc (store s) src, s\<lparr>calls := calls s @ [CallFindBySource src]\<rparr>)"

section \<open>The ingress side of the status resync\<close>

text \<open>\<^verbatim>\<open>findStatusHash\<close>: the hash of the first entry with the resource's id, and
  whether there is one.\<close>

fun findStatusHash :: "string \<Rightarrow> ResourceStatusHash list \<Rightarrow> string \<times> bool" where
  "findStatusHash rid [] = ([], False)"
| "findStatusHash rid (hash # hashes) =
     (if rid = ResourceID hash then (StatusHash hash, True) else findStatusHash rid hashes)"

text \<open>The two loops of \<^verbatim>\<open>respondResyncStatusRequest\<close> over the loaded resources:
  \<open>broadcastAll\<close> for an empty hash list, \<open>broadcastChanged\<close> otherwise, where each
  \<^verbatim>\<open>continue\<close> goes on with the rest of the list and the state unchanged.
  \<^verbatim>\<open>string(obj.GetUID())\<close> is the resource's id.\<close>

fun broadcastAll :: "Resource list \<Rightarrow> 'st server \<Rightarrow> 'st server" where
  "broadcastAll [] s = s"
| "broadcastAll (obj # objs) s = broadcastAll objs (Broadcast obj s)"

fun broadcastChanged ::
  "'pb externals \<Rightarrow> ResourceStatusHash list \<Rightarrow> Resource list \<Rightarrow> 'st server \<Rightarrow> 'st server" where
  "broadcastChanged x hashes [] s = s"
| "broadcastChanged x hashes (obj # objs) s =
     (case findStatusHash (ID obj) hashes of
        (lastHash, ok) \<Rightarrow>
          if \<not> ok then broadcastChanged x hashes objs s
          else
            (case ResourceStatusHashGetter x obj of
               None \<Rightarrow> broadcastChanged x hashes objs s
             | Some currentHash \<Rightarrow>
                 if currentHash = lastHash then broadcastChanged x hashes objs s
                 else broadcastChanged x hashes objs (Broadcast obj s)))"

definition respondResyncStatusRequest ::
  "'pb externals \<Rightarrow> 'st ResourceService \<Rightarrow> 'st server \<Rightarrow> Event \<Rightarrow> (error + unit) \<times> 'st server" where
  "respondResyncStatusRequest x svc s evt =
     (case callFindBySource svc s (EventSource evt) of
        (None, s1) \<Rightarrow> (Inl FailedListResources, s1)
      | (Some objs, s1) \<Rightarrow>
          (case DecodeStatusResyncRequest x evt of
             None \<Rightarrow> (Inl FailedDecodeResyncRequest, s1)
           | Some hashes \<Rightarrow>
               if length hashes = 0 then (Inr (), broadcastAll objs s1)
               else (Inr (), broadcastChanged x hashes objs s1)))"

section \<open>Publish\<close>

text \<open>
  \<^verbatim>\<open>Publish\<close>: protobuf to event, parse the type, answer a resync request before
  anything is decoded, otherwise decode and switch on the action. In the update case
  \<^verbatim>\<open>found.Version < res.Version\<close> compares two \<^verbatim>\<open>int32\<close>, that is, their signed
  values. The result is the error or the empty response, and the state after the call.
\<close>

definition publishUpdate ::
  "'st ResourceService \<Rightarrow> 'st server \<Rightarrow> Resource \<Rightarrow> (error + unit) \<times> 'st server" where
  "publishUpdate svc s res =
     (case callUpdate svc s res of
        (None, s') \<Rightarrow> (Inl FailedUpdate, s')
      | (Some r, s') \<Rightarrow> (Inr (), s'))"

definition Publish ::
  "'pb externals \<Rightarrow> 'st ResourceService \<Rightarrow> 'st server \<Rightarrow> 'pb \<Rightarrow> (error + unit) \<times> 'st server" where
  "Publish x svc s pubReq =
     (case ToEvent x pubReq of
        None \<Rightarrow> (Inl FailedConvertProtobuf, s)
      | Some evt \<Rightarrow>
      (case ParseCloudEventsType x (EventType evt) of
        None \<Rightarrow> (Inl (FailedParseEventType (EventType evt)), s)
      | Some eventType \<Rightarrow>
          if Action eventType = ResyncRequestAction then
            (case respondResyncStatusRequest x svc s evt of
               (Inl err, s') \<Rightarrow> (Inl (FailedRespondResync err), s')
             | (Inr u, s') \<Rightarrow> (Inr (), s'))
          else
            (case decode x (CloudEventsDataType eventType) evt of
               Inl err \<Rightarrow> (Inl (FailedDecode err), s)
             | Inr res \<Rightarrow>
                 if Action eventType = CreateRequestAction then
                   (case callCreate svc s res of
                      (None, s') \<Rightarrow> (Inl FailedCreate, s')
                    | (Some r, s') \<Rightarrow> (Inr (), s'))
                 else if Action eventType = UpdateRequestAction then
                   (if HasManifestBundle x res then
                      (case callGet svc s (ID res) of
                         (None, s') \<Rightarrow> (Inl FailedGet, s')
                       | (Some found, s') \<Rightarrow>
                           publishUpdate svc s'
                             (if sint (Version found) < sint (Version res)
                              then res\<lparr>Version := Version found\<rparr> else res))
                    else publishUpdate svc s res)
                 else if Action eventType = DeleteRequestAction then
                   (case callMarkAsDeleting svc s (ID res) of
                      (False, s') \<Rightarrow> (Inl FailedMarkAsDeleting, s')
                    | (True, s') \<Rightarrow> (Inr (), s'))
                 else (Inl (UnsupportedAction (Action eventType)), s))))"

section \<open>Subscribe\<close>

text \<open>
  The fragment of Go's \<^verbatim>\<open>regexp\<close> syntax that \<^verbatim>\<open>subscriptionRequestTopicPattern\<close> is
  written in: a literal byte, a range of a character class, concatenation,
  alternation and repetition. The pattern opens with \<^verbatim>\<open>^\<close> and closes with \<^verbatim>\<open>$\<close>, which
  without the \<^verbatim>\<open>m\<close> flag stand for the two ends of the text, so \<^verbatim>\<open>MatchString\<close> holds
  exactly when the whole topic is matched. Matching is by derivatives: \<open>step c r\<close>
  matches what \<open>r\<close> matches after a leading \<open>c\<close>, and \<open>emptyOk r\<close> tells whether \<open>r\<close>
  matches the empty text.
\<close>

datatype regexp =
    Never
  | Empty
  | Lit char
  | Range char char
  | Seq regexp regexp
  | Alt regexp regexp
  | Star regexp

fun emptyOk :: "regexp \<Rightarrow> bool" where
  "emptyOk Never = False"
| "emptyOk Empty = True"
| "emptyOk (Lit c) = False"
| "emptyOk (Range lo hi) = False"
| "emptyOk (Seq r t) = (emptyOk r \<and> emptyOk t)"
| "emptyOk (Alt r t) = (emptyOk r \<or> emptyOk t)"
| "emptyOk (Star r) = True"

definition inRange :: "char \<Rightarrow> char \<Rightarrow> char \<Rightarrow> bool" where
  "inRange lo hi c = ((of_char lo :: nat) \<le> of_char c \<and> (of_char c :: nat) \<le> of_char hi)"

fun step :: "char \<Rightarrow> regexp \<Rightarrow> regexp" where
  "step c Never = Never"
| "step c Empty = Never"
| "step c (Lit d) = (if c = d then Empty else Never)"
| "step c (Range lo hi) = (if inRange lo hi c then Empty else Never)"
| "step c (Seq r t) =
     (if emptyOk r then Alt (Seq (step c r) t) (step c t) else Seq (step c r) t)"
| "step c (Alt r t) = Alt (step c r) (step c t)"
| "step c (Star r) = Seq (step c r) (Star r)"

fun accepts :: "regexp \<Rightarrow> string \<Rightarrow> bool" where
  "accepts r [] = emptyOk r"
| "accepts r (c # cs) = accepts (step c r) cs"

text \<open>What an expression denotes, to state what the matcher decides: \<open>words r\<close> is
  the set of texts of \<open>r\<close>, \<open>reps A\<close> the concatenations of texts of \<open>A\<close>.\<close>

inductive_set reps :: "string set \<Rightarrow> string set" for A :: "string set" where
  reps_nil: "[] \<in> reps A"
| reps_more: "u \<in> A \<Longrightarrow> v \<in> reps A \<Longrightarrow> u @ v \<in> reps A"

fun words :: "regexp \<Rightarrow> string set" where
  "words Never = {}"
| "words Empty = {[]}"
| "words (Lit c) = {[c]}"
| "words (Range lo hi) = {[c] | c. inRange lo hi c}"
| "words (Seq r t) = {u @ v | u v. u \<in> words r \<and> v \<in> words t}"
| "words (Alt r t) = words r \<union> words t"
| "words (Star r) = reps (words r)"

text \<open>\<^verbatim>\<open>^sources/([a-z0-9-]+)/clusters/([a-z0-9-]+|\+)/status$\<close>: \<open>Lits\<close> is a literal
  text, \<open>Plus\<close> the postfix \<^verbatim>\<open>+\<close>, \<open>idClass\<close> the class \<^verbatim>\<open>[a-z0-9-]\<close>; \<open>sourceGroup\<close> and
  \<open>clusterGroup\<close> are the two parenthesised groups.\<close>

fun Lits :: "string \<Rightarrow> regexp" where
  "Lits [] = Empty"
| "Lits (c # cs) = Seq (Lit c) (Lits cs)"

definition Plus :: "regexp \<Rightarrow> regexp" where
  "Plus r = Seq r (Star r)"

definition idClass :: regexp where
  "idClass = Alt (Range CHR ''a'' CHR ''z'') (Alt (Range CHR ''0'' CHR ''9'') (Lit CHR ''-''))"

definition sourceGroup :: regexp where
  "sourceGroup = Plus idClass"

definition clusterGroup :: regexp where
  "clusterGroup = Alt (Plus idClass) (Lit CHR ''+'')"

definition subscriptionRequestTopicPattern :: regexp where
  "subscriptionRequestTopicPattern =
     Seq (Lits ''sources/'') (Seq sourceGroup (Seq (Lits ''/clusters/'')
       (Seq clusterGroup (Lits ''/status''))))"

definition MatchString :: "regexp \<Rightarrow> string \<Rightarrow> bool" where
  "MatchString r s = accepts r s"

text \<open>\<^verbatim>\<open>strings.Split\<close> at a one-byte separator: the pieces between the separators, in
  order; a text without the separator, the empty text too, is its own single piece.\<close>

fun Split :: "string \<Rightarrow> char \<Rightarrow> string list" where
  "Split [] sep = [[]]"
| "Split (c # cs) sep =
     (if c = sep then [] # Split cs sep
      else (case Split cs sep of
              [] \<Rightarrow> [[c]]
            | piece # pieces \<Rightarrow> (c # piece) # pieces))"

text \<open>
  \<^verbatim>\<open>Subscribe\<close> up to the registration: the result is the error returned before
  anything is registered, or the source and the cluster name handed to
  \<^verbatim>\<open>eventBroadcaster.Register\<close>. Both early returns are \<^verbatim>\<open>fmt.Errorf\<close> values that name
  the topic. The wait on the error channel and on the end of the stream that follows
  the registration is not modelled.
\<close>

definition Subscribe :: "string \<Rightarrow> error + string \<times> string" where
  "Subscribe topic =
     (if \<not> MatchString subscriptionRequestTopicPattern topic
      then Inl (InvalidSubscriptionTopic topic)
      else
        (let topicSplits = Split topic CHR ''/'' in
         if length topicSplits \<noteq> 5 then Inl (InvalidSubscriptionTopic topic)
         else Inr (topicSplits ! 1, topicSplits ! 3)))"

text \<open>A byte of the class \<^verbatim>\<open>[a-z0-9-]\<close>, and a non-empty text of such bytes.\<close>

definition idChar :: "char \<Rightarrow> bool" where
  "idChar c = (inRange CHR ''a'' CHR ''z'' c \<or> inRange CHR ''0'' CHR ''9'' c \<or> c = CHR ''-'')"

definition idText :: "string \<Rightarrow> bool" where
  "idText w = (w \<noteq> [] \<and> list_all idChar w)"

section \<open>A resource service in memory\<close>

text \<open>
  Modelled from the spec: the resource repository, whose implementation
  (\<^verbatim>\<open>pkg/services\<close>, \<^verbatim>\<open>pkg/dao\<close>) is not among the sources. The store is the list
  of the stored resources, as in the repository's DAO mock. Following the contract
  table of the spec: \<open>Get\<close> is a snapshot read, not found is an error; \<open>Create\<close>
  refuses an id that exists and stores the resource otherwise; \<open>Update\<close> takes a
  resource with its id set, "merges spec fields; preserves status", that is, the
  stored resource takes the version and the manifest of the given one and keeps
  everything else, and the spec's scenario "store holds version 3, update with
  version 3 after the rewrite, \<^verbatim>\<open>Get\<close> gives version 3" fixes that the version is
  stored as given; \<open>MarkAsDeleting\<close> "sets \<^verbatim>\<open>deleted_at\<close>", is idempotent and tolerates
  a missing id; \<open>FindBySource\<close> lists the resources of a source. \<open>now\<close> is the time
  of the call.
\<close>

definition memGet :: "Resource list \<Rightarrow> string \<Rightarrow> Resource option" where
  "memGet st rid = find (\<lambda>r. ID r = rid) st"

text \<open>Modelled from the spec: \<^verbatim>\<open>Create\<close>, "\<^verbatim>\<open>Conflict\<close> if id exists"; the assignment of
  a fresh id to a resource without one is left out.\<close>

definition memCreate :: "Resource list \<Rightarrow> Resource \<Rightarrow> Resource list \<times> Resource option" where
  "memCreate st res =
     (case memGet st (ID res) of
        Some found \<Rightarrow> (st, None)
      | None \<Rightarrow> (st @ [res], Some res))"

text \<open>Modelled from the spec: \<^verbatim>\<open>Update\<close>, "merges spec fields; preserves \<^verbatim>\<open>status\<close>".\<close>

definition memUpdate :: "Resource list \<Rightarrow> Resource \<Rightarrow> Resource list \<times> Resource option" where
  "memUpdate st res =
     (case memGet st (ID res) of
        None \<Rightarrow> (st, None)
      | Some found \<Rightarrow>
          (let updated = found\<lparr>Version := Version res, Manifest := Manifest res\<rparr> in
           (map (\<lambda>r. if ID r = ID res then updated else r) st, Some updated)))"

text \<open>Modelled from the spec: \<^verbatim>\<open>MarkAsDeleting\<close>, "idempotent; sets \<^verbatim>\<open>deleted_at\<close>;
  \<^verbatim>\<open>NotFound\<close> tolerated as success".\<close>

definition memMarkAsDeleting :: "Time \<Rightarrow> Resource list \<Rightarrow> string \<Rightarrow> Resource list \<times> bool" where
  "memMarkAsDeleting now st rid =
     (map (\<lambda>r. if ID r = rid \<and> DeletedAt r = None then r\<lparr>DeletedAt := Some now\<rparr> else r) st,
      True)"

text \<open>Modelled from the spec: \<^verbatim>\<open>FindBySource\<close>, the list used by the resync.\<close>

definition memFindBySource :: "Resource list \<Rightarrow> string \<Rightarrow> Resource list option" where
  "memFindBySource st src = Some (filter (\<lambda>r. Source r = src) st)"

text \<open>Modelled from the spec: the five operations as one resource service.\<close>

definition memService :: "Time \<Rightarrow> Resource list ResourceService" where
  "memService now =
     \<lparr>Get = memGet, Create = memCreate, Update = memUpdate,
      MarkAsDeleting = memMarkAsDeleting now, FindBySource = memFindBySource\<rparr>"

section \<open>Examples\<close>

text \<open>
  One concrete setting for the examples below. The protobuf message of a request is
  the event itself. The doubles answer for the libraries on the inputs of the examples:
  an event type is one of four written-out types; a conversion accepts the values of
  its own type and refuses a missing one; a built event has the type's five parts
  joined by dots as its type, the four extensions \<^verbatim>\<open>resourceid\<close>, \<^verbatim>\<open>resourceversion\<close>,
  \<^verbatim>\<open>clustername\<close> and \<^verbatim>\<open>originalsource\<close>, and no payload; a non-empty payload is read as a
  manifest without an object, or as a bundle without manifests; a \<^verbatim>\<open>ManifestWork\<close> is
  written as its kind and read back as a map with that kind; of a JSON value only
  \<^verbatim>\<open>null\<close>, the booleans, the empty array and the empty object are written out; only an
  empty list of manifest conditions (\<^verbatim>\<open>[]\<close> or \<^verbatim>\<open>null\<close>) is read back; a status payload is
  a token; a resource holds a bundle when the kind of its manifest is \<^verbatim>\<open>ManifestWork\<close>;
  a status map is converted by reading its \<^verbatim>\<open>ContentStatus\<close> object and its
  \<^verbatim>\<open>ReconcileStatus\<close>, where an empty object is the zero status and an absent one is
  nil; the payload \<^verbatim>\<open>{}\<close> of a resync request has no hashes, and one more payload stands
  for the hash \<^verbatim>\<open>{}\<close> of each of \<open>r1\<close>, \<open>r3\<close> and \<open>r4\<close>; the hash of a status is the text of
  its content status, and there is none without a content status.
\<close>

definition exampleParseCloudEventsType :: "string \<Rightarrow> CloudEventsType option" where
  "exampleParseCloudEventsType t =
     (if t = ''io.open-cluster-management.works.v1alpha1.manifests.spec.delete_request'' then
        Some \<lparr>CloudEventsDataType = ManifestEventDataType, SubResource = ''spec'',
              Action = DeleteRequestAction\<rparr>
      else if t = ''io.open-cluster-management.works.v1alpha1.manifests.spec.update_request'' then
        Some \<lparr>CloudEventsDataType = ManifestEventDataType, SubResource = ''spec'',
              Action = UpdateRequestAction\<rparr>
      else if t = ''io.open-cluster-management.works.v1alpha1.manifestbundles.spec.update_request'' then
        Some \<lparr>CloudEventsDataType = ManifestBundleEventDataType, SubResource = ''spec'',
              Action = UpdateRequestAction\<rparr>
      else if t = ''io.open-cluster-management.works.v1alpha1.manifests.status.resync_request'' then
        Some \<lparr>CloudEventsDataType = ManifestEventDataType, SubResource = SubResourceStatus,
              Action = ResyncRequestAction\<rparr>
      else None)"

definition exampleCloudEventsTypeString :: "CloudEventsType \<Rightarrow> string" where
  "exampleCloudEventsTypeString t =
     DataGroup (CloudEventsDataType t) @ ''.'' @ DataVersion (CloudEventsDataType t) @ ''.'' @
     DataResource (CloudEventsDataType t) @ ''.'' @ SubResource t @ ''.'' @ Action t"

definition exampleToString :: "ce_value option \<Rightarrow> string option" where
  "exampleToString v = (case v of Some (CEString t) \<Rightarrow> Some t | _ \<Rightarrow> None)"

definition exampleToInteger :: "ce_value option \<Rightarrow> int32 option" where
  "exampleToInteger v = (case v of Some (CEInteger i) \<Rightarrow> Some i | _ \<Rightarrow> None)"

definition exampleToTime :: "ce_value \<Rightarrow> Time option" where
  "exampleToTime v = (case v of CETimestamp t \<Rightarrow> Some t | _ \<Rightarrow> None)"

definition exampleNewEvent ::
  "string \<Rightarrow> CloudEventsType \<Rightarrow> string \<Rightarrow> int32 \<Rightarrow> string \<Rightarrow> string \<Rightarrow> Event" where
  "exampleNewEvent source eventType resourceID resourceVersion clusterName originalSource =
     \<lparr>EventType = exampleCloudEventsTypeString eventType,
      EventSource = source,
      Extensions =
        [ExtensionResourceID \<mapsto> CEString resourceID,
         ExtensionResourceVersion \<mapsto> CEInteger resourceVersion,
         ExtensionClusterName \<mapsto> CEString clusterName,
         ExtensionOriginalSource \<mapsto> CEString originalSource],
      Data = []\<rparr>"

definition exampleDataAsManifest :: "string \<Rightarrow> ManifestPayload option" where
  "exampleDataAsManifest d = (if d = [] then None else Some \<lparr>ManifestObject = Map.empty\<rparr>)"

definition exampleDataAsManifestBundle :: "string \<Rightarrow> ManifestBundlePayload option" where
  "exampleDataAsManifestBundle d =
     (if d = [] then None
      else Some \<lparr>Manifests = [], DeleteOption = None, ManifestConfigs = []\<rparr>)"

definition exampleUnmarshalJSONMap :: "string \<Rightarrow> JSONMap option" where
  "exampleUnmarshalJSONMap t = (if t = [] then None else Some [''kind'' \<mapsto> JString t])"

definition exampleMarshalJSON :: "json \<Rightarrow> string" where
  "exampleMarshalJSON j =
     (case j of
        JNull \<Rightarrow> ''null''
      | JBool b \<Rightarrow> (if b then ''true'' else ''false'')
      | JArray [] \<Rightarrow> ''[]''
      | JObject [] \<Rightarrow> ''{}''
      | _ \<Rightarrow> ''...'')"

definition exampleUnmarshalManifestConditions :: "string \<Rightarrow> ManifestCondition list option" where
  "exampleUnmarshalManifestConditions t = (if t = ''[]'' \<or> t = ''null'' then Some [] else None)"

definition exampleHasManifestBundle :: "Resource \<Rightarrow> bool" where
  "exampleHasManifestBundle r = (Manifest r ''kind'' = Some (JString ''ManifestWork''))"

definition exampleJSONMapStatusToResourceStatus :: "JSONMap \<Rightarrow> ResourceStatus option option" where
  "exampleJSONMapStatusToResourceStatus m =
     (case (case m ''ContentStatus'' of
              None \<Rightarrow> Some Map.empty
            | Some JNull \<Rightarrow> Some Map.empty
            | Some (JObject kvs) \<Rightarrow> Some (map_of kvs)
            | Some other \<Rightarrow> None) of
        None \<Rightarrow> None
      | Some content \<Rightarrow>
          (case m ''ReconcileStatus'' of
             None \<Rightarrow> Some (Some \<lparr>ContentStatus = content, ReconcileStatus = None\<rparr>)
           | Some JNull \<Rightarrow> Some (Some \<lparr>ContentStatus = content, ReconcileStatus = None\<rparr>)
           | Some (JObject []) \<Rightarrow>
               Some (Some \<lparr>ContentStatus = content,
                           ReconcileStatus =
                             Some \<lparr>ObservedVersion = 0, SequenceID = [], Conditions = []\<rparr>\<rparr>)
           | Some other \<Rightarrow> None))"

definition exampleDecodeStatusResyncRequest :: "Event \<Rightarrow> ResourceStatusHash list option" where
  "exampleDecodeStatusResyncRequest evt =
     (if Data evt = ''{}'' then Some []
      else if Data evt = ''r1={} r3={} r4={}'' then
        Some [\<lparr>ResourceID = ''r1'', StatusHash = ''{}''\<rparr>,
              \<lparr>ResourceID = ''r3'', StatusHash = ''{}''\<rparr>,
              \<lparr>ResourceID = ''r4'', StatusHash = ''{}''\<rparr>]
      else None)"

definition exampleResourceStatusHashGetter :: "Resource \<Rightarrow> string option" where
  "exampleResourceStatusHashGetter r = map_option exampleMarshalJSON (Status r ''ContentStatus'')"

definition exampleExternals :: "Event externals" where
  "exampleExternals =
     \<lparr>ToEvent = Some,
      ParseCloudEventsType = exampleParseCloudEventsType,
      ToString = exampleToString,
      ToInteger = exampleToInteger,
      ToTime = exampleToTime,
      NewEvent = exampleNewEvent,
      DataAsManifest = exampleDataAsManifest,
      DataAsManifestBundle = exampleDataAsManifestBundle,
      UnmarshalJSONMap = exampleUnmarshalJSONMap,
      UnmarshalManifestConditions = exampleUnmarshalManifestConditions,
      MarshalManifestWork = Kind,
      MarshalJSON = exampleMarshalJSON,
      MarshalJSONMap = (\<lambda>m. ''{}''),
      MarshalManifestStatus = (\<lambda>p. ''manifest-status''),
      MarshalManifestBundleStatus = (\<lambda>p. ''manifest-bundle-status''),
      HasManifestBundle = exampleHasManifestBundle,
      JSONMapStatusToResourceStatus = exampleJSONMapStatusToResourceStatus,
      DecodeStatusResyncRequest = exampleDecodeStatusResyncRequest,
      ResourceStatusHashGetter = exampleResourceStatusHashGetter\<rparr>"

text \<open>The resources of the examples: \<open>r1\<close> is a single manifest with an empty content
  status and a reconcile status, \<open>r2\<close> a bundle in version 3 whose content status has
  an empty \<^verbatim>\<open>ManifestStatus\<close> list, \<open>r3\<close> a single manifest whose content status is
  \<^verbatim>\<open>null\<close>, \<open>r4\<close> one without a content status, \<open>r5\<close> a bundle whose \<^verbatim>\<open>ManifestStatus\<close> is
  an object and not a list, \<open>r7\<close> a bundle whose content status has no
  \<^verbatim>\<open>ManifestStatus\<close>, \<open>r8\<close> a single manifest without a reconcile status.\<close>

definition exampleResource :: "string \<Rightarrow> int32 \<Rightarrow> ResourceType \<Rightarrow> JSONMap \<Rightarrow> JSONMap \<Rightarrow> Resource" where
  "exampleResource rid v t manifest status =
     \<lparr>ID = rid, DeletedAt = None, Version = v, Source = ''source1'', ConsumerID = ''cluster1'',
      Type = t, Manifest = manifest, Status = status\<rparr>"

definition exampleR1 :: Resource where
  "exampleR1 =
     exampleResource ''r1'' 1 ResourceTypeSingle Map.empty
       [''ContentStatus'' \<mapsto> JObject [], ''ReconcileStatus'' \<mapsto> JObject []]"

definition exampleR2 :: Resource where
  "exampleR2 =
     exampleResource ''r2'' 3 ResourceTypeBundle [''kind'' \<mapsto> JString ''ManifestWork'']
       [''ContentStatus'' \<mapsto> JObject [(''ManifestStatus'', JArray [])]]"

definition exampleR3 :: Resource where
  "exampleR3 =
     exampleResource ''r3'' 1 ResourceTypeSingle Map.empty [''ContentStatus'' \<mapsto> JNull]"

definition exampleR4 :: Resource where
  "exampleR4 = exampleResource ''r4'' 1 ResourceTypeSingle Map.empty Map.empty"

definition exampleR5 :: Resource where
  "exampleR5 =
     exampleResource ''r5'' 1 ResourceTypeBundle [''kind'' \<mapsto> JString ''ManifestWork'']
       [''ContentStatus'' \<mapsto> JObject [(''ManifestStatus'', JObject [])]]"

definition exampleR7 :: Resource where
  "exampleR7 =
     exampleResource ''r7'' 1 ResourceTypeBundle [''kind'' \<mapsto> JString ''ManifestWork'']
       [''ContentStatus'' \<mapsto> JObject []]"

definition exampleR8 :: Resource where
  "exampleR8 =
     exampleResource ''r8'' 1 ResourceTypeSingle Map.empty [''ContentStatus'' \<mapsto> JObject []]"

text \<open>The requests of the examples, all from \<^verbatim>\<open>source1\<close>: a request of the given type
  for resource \<open>rid\<close> in version \<open>v\<close> on \<^verbatim>\<open>cluster1\<close> with the payload \<^verbatim>\<open>{}\<close>, and a resync
  request without any extension.\<close>

definition exampleRequest :: "string \<Rightarrow> string \<Rightarrow> int32 \<Rightarrow> Event" where
  "exampleRequest t rid v =
     \<lparr>EventType = t, EventSource = ''source1'',
      Extensions =
        [ExtensionClusterName \<mapsto> CEString ''cluster1'',
         ExtensionResourceID \<mapsto> CEString rid,
         ExtensionResourceVersion \<mapsto> CEInteger v],
      Data = ''{}''\<rparr>"

definition exampleResyncRequest :: "string \<Rightarrow> Event" where
  "exampleResyncRequest d =
     \<lparr>EventType = ''io.open-cluster-management.works.v1alpha1.manifests.status.resync_request'',
      EventSource = ''source1'', Extensions = Map.empty, Data = d\<rparr>"

definition exampleServer :: "Resource list \<Rightarrow> Resource list server" where
  "exampleServer st = \<lparr>store = st, calls = [], broadcasts = []\<rparr>"

definition exampleDeleteRequest :: Event where
  "exampleDeleteRequest =
     exampleRequest ''io.open-cluster-management.works.v1alpha1.manifests.spec.delete_request''
       ''r6'' 1"

definition exampleBundleUpdateRequest :: Event where
  "exampleBundleUpdateRequest =
     exampleRequest
       ''io.open-cluster-management.works.v1alpha1.manifestbundles.spec.update_request'' ''r2'' 7"

definition exampleSingleUpdateRequest :: Event where
  "exampleSingleUpdateRequest =
     exampleRequest ''io.open-cluster-management.works.v1alpha1.manifests.spec.update_request''
       ''r1'' 7"

section \<open>Facts shared by the proofs\<close>

lemma actions_distinct:
  "UpdateRequestAction \<noteq> ResyncRequestAction" "UpdateRequestAction \<noteq> CreateRequestAction"
  "DeleteRequestAction \<noteq> ResyncRequestAction" "DeleteRequestAction \<noteq> CreateRequestAction"
  "DeleteRequestAction \<noteq> UpdateRequestAction"
  by (simp_all add: UpdateRequestAction_def ResyncRequestAction_def CreateRequestAction_def
      DeleteRequestAction_def)

lemmas extension_names =
  ExtensionClusterName_def ExtensionResourceID_def ExtensionResourceVersion_def
  ExtensionDeletionTimestamp_def ExtensionOriginalSource_def

text \<open>The two loops of the resync only append to the broadcasts.\<close>

lemma broadcastAll_broadcasts: "broadcasts (broadcastAll objs s) = broadcasts s @ objs"
  by (induction objs arbitrary: s) (simp_all add: Broadcast_def)

lemma broadcastAll_calls: "calls (broadcastAll objs s) = calls s"
  by (induction objs arbitrary: s) (simp_all add: Broadcast_def)

lemma broadcastAll_store: "store (broadcastAll objs s) = store s"
  by (induction objs arbitrary: s) (simp_all add: Broadcast_def)

lemma broadcastChanged_calls: "calls (broadcastChanged x hashes objs s) = calls s"
  by (induction objs arbitrary: s) (simp_all add: Broadcast_def split: prod.splits option.splits)

lemma broadcastChanged_store: "store (broadcastChanged x hashes objs s) = store s"
  by (induction objs arbitrary: s) (simp_all add: Broadcast_def split: prod.splits option.splits)

lemma broadcastChanged_broadcasts:
  "broadcasts (broadcastChanged x hashes objs s) =
     broadcasts s @
     filter (\<lambda>obj. snd (findStatusHash (ID obj) hashes) \<and>
               (case ResourceStatusHashGetter x obj of
                  None \<Rightarrow> False
                | Some currentHash \<Rightarrow> currentHash \<noteq> fst (findStatusHash (ID obj) hashes))) objs"
  by (induction objs arbitrary: s) (simp_all add: Broadcast_def split: prod.splits option.splits)

lemma findStatusHash_present:
  "snd (findStatusHash rid hashes) \<longleftrightarrow> rid \<in> ResourceID ` set hashes"
  by (induction hashes) auto

lemma respond_calls:
  "calls (snd (respondResyncStatusRequest x svc s evt)) =
     calls s @ [CallFindBySource (EventSource evt)]"
  by (simp add: respondResyncStatusRequest_def callFindBySource_def broadcastAll_calls
      broadcastChanged_calls split: option.splits)

lemma respond_store: "store (snd (respondResyncStatusRequest x svc s evt)) = store s"
  by (simp add: respondResyncStatusRequest_def callFindBySource_def broadcastAll_store
      broadcastChanged_store split: option.splits)

text \<open>The setting of the examples, unfolded once.\<close>

lemma example_simps:
  "ToEvent exampleExternals = Some"
  "ParseCloudEventsType exampleExternals = exampleParseCloudEventsType"
  "ToString exampleExternals = exampleToString"
  "ToInteger exampleExternals = exampleToInteger"
  "ToTime exampleExternals = exampleToTime"
  "NewEvent exampleExternals = exampleNewEvent"
  "DataAsManifest exampleExternals = exampleDataAsManifest"
  "DataAsManifestBundle exampleExternals = exampleDataAsManifestBundle"
  "UnmarshalJSONMap exampleExternals = exampleUnmarshalJSONMap"
  "UnmarshalManifestConditions exampleExternals = exampleUnmarshalManifestConditions"
  "MarshalManifestWork exampleExternals = Kind"
  "MarshalJSON exampleExternals = exampleMarshalJSON"
  "MarshalJSONMap exampleExternals = (\<lambda>m. ''{}'')"
  "MarshalManifestStatus exampleExternals = (\<lambda>p. ''manifest-status'')"
  "MarshalManifestBundleStatus exampleExternals = (\<lambda>p. ''manifest-bundle-status'')"
  "HasManifestBundle exampleExternals = exampleHasManifestBundle"
  "JSONMapStatusToResourceStatus exampleExternals = exampleJSONMapStatusToResourceStatus"
  "DecodeStatusResyncRequest exampleExternals = exampleDecodeStatusResyncRequest"
  "ResourceStatusHashGetter exampleExternals = exampleResourceStatusHashGetter"
  by (simp_all add: exampleExternals_def)

lemma memService_simps:
  "Get (memService now) = memGet" "Create (memService now) = memCreate"
  "Update (memService now) = memUpdate" "MarkAsDeleting (memService now) = memMarkAsDeleting now"
  "FindBySource (memService now) = memFindBySource"
  by (simp_all add: memService_def)

lemma example_parse_delete:
  "exampleParseCloudEventsType (EventType exampleDeleteRequest) =
     Some \<lparr>CloudEventsDataType = ManifestEventDataType, SubResource = ''spec'',
           Action = DeleteRequestAction\<rparr>"
  by (simp add: exampleParseCloudEventsType_def exampleDeleteRequest_def exampleRequest_def)

lemma example_decode_delete:
  "decode exampleExternals ManifestEventDataType exampleDeleteRequest =
     Inr (exampleResource ''r6'' 1 [] Map.empty Map.empty)"
  by (simp add: decode_def exampleDeleteRequest_def exampleRequest_def exampleToString_def
      exampleToInteger_def extension_names example_simps exampleDataAsManifest_def
      exampleResource_def)

lemma example_parse_resync:
  "exampleParseCloudEventsType (EventType (exampleResyncRequest d)) =
     Some \<lparr>CloudEventsDataType = ManifestEventDataType, SubResource = SubResourceStatus,
           Action = ResyncRequestAction\<rparr>"
  by (simp add: exampleParseCloudEventsType_def exampleResyncRequest_def)

lemma example_resync_fields:
  "EventSource (exampleResyncRequest d) = ''source1''"
  "Extensions (exampleResyncRequest d) = Map.empty"
  "Data (exampleResyncRequest d) = d"
  by (simp_all add: exampleResyncRequest_def)

lemma example_decode_resync:
  "decode exampleExternals ManifestEventDataType (exampleResyncRequest d) =
     Inl (MalformedEvent ExtensionClusterName)"
  by (simp add: decode_def exampleResyncRequest_def example_simps exampleToString_def)

section \<open>Publish: the delete request\<close>

text \<open>
  Claim C8. A publish request whose event type parses with the action
  \<^verbatim>\<open>delete_request\<close> and whose event decodes to a resource makes exactly one call to the
  resource service, \<^verbatim>\<open>MarkAsDeleting\<close> with the id of the decoded resource: the log of
  calls grows by that one entry, so there is no \<^verbatim>\<open>Create\<close> and no \<^verbatim>\<open>Update\<close>. Nothing is
  handed to the broadcaster. The store is the one \<^verbatim>\<open>MarkAsDeleting\<close> leaves, and the
  request succeeds exactly when \<^verbatim>\<open>MarkAsDeleting\<close> does. This holds for every resource
  service and every behaviour of the libraries.
\<close>

theorem Publish_delete_frame:
  assumes "ToEvent x pubReq = Some evt"
    and "ParseCloudEventsType x (EventType evt) = Some eventType"
    and "Action eventType = DeleteRequestAction"
    and "decode x (CloudEventsDataType eventType) evt = Inr res"
  shows "calls (snd (Publish x svc s pubReq)) = calls s @ [CallMarkAsDeleting (ID res)] \<and>
         broadcasts (snd (Publish x svc s pubReq)) = broadcasts s \<and>
         store (snd (Publish x svc s pubReq)) = fst (MarkAsDeleting svc (store s) (ID res)) \<and>
         (fst (Publish x svc s pubReq) = Inr () \<longleftrightarrow> snd (MarkAsDeleting svc (store s) (ID res)))"
  using assms
  by (simp add: Publish_def actions_distinct callMarkAsDeleting_def split: prod.splits bool.splits)

text \<open>The delete request for \<open>r6\<close> of the spec's scenario, on a store that holds \<open>r6\<close>.\<close>

theorem Publish_delete_frame_witness:
  "ToEvent exampleExternals exampleDeleteRequest = Some exampleDeleteRequest \<and>
   ParseCloudEventsType exampleExternals (EventType exampleDeleteRequest) =
     Some \<lparr>CloudEventsDataType = ManifestEventDataType, SubResource = ''spec'',
           Action = DeleteRequestAction\<rparr> \<and>
   decode exampleExternals ManifestEventDataType exampleDeleteRequest =
     Inr (exampleResource ''r6'' 1 [] Map.empty Map.empty) \<and>
   calls (snd (Publish exampleExternals (memService 0)
                 (exampleServer [exampleResource ''r6'' 1 ResourceTypeSingle Map.empty Map.empty])
                 exampleDeleteRequest)) = [CallMarkAsDeleting ''r6''] \<and>
   broadcasts (snd (Publish exampleExternals (memService 0)
                 (exampleServer [exampleResource ''r6'' 1 ResourceTypeSingle Map.empty Map.empty])
                 exampleDeleteRequest)) = []"
  using Publish_delete_frame [of exampleExternals exampleDeleteRequest exampleDeleteRequest
      "\<lparr>CloudEventsDataType = ManifestEventDataType, SubResource = ''spec'',
           Action = DeleteRequestAction\<rparr>"
      "exampleResource ''r6'' 1 [] Map.empty Map.empty" "memService 0"
      "exampleServer [exampleResource ''r6'' 1 ResourceTypeSingle Map.empty Map.empty]"]
  by (simp add: example_decode_delete example_parse_delete example_simps exampleServer_def
      exampleResource_def)

section \<open>Publish: the resync request\<close>

text \<open>
  Claim C10. A publish request whose event type parses with the action
  \<^verbatim>\<open>resync_request\<close> is answered before anything is decoded: the only call to the
  resource service is \<^verbatim>\<open>FindBySource\<close> with the source of the event, so \<^verbatim>\<open>Create\<close>,
  \<^verbatim>\<open>Update\<close> and \<^verbatim>\<open>MarkAsDeleting\<close> are never called and the store is unchanged; and the
  request succeeds exactly when the resources can be listed and the hash list of the
  request can be read, whatever extensions the event has or lacks.
\<close>

theorem Publish_resync_before_decode:
  assumes "ToEvent x pubReq = Some evt"
    and "ParseCloudEventsType x (EventType evt) = Some eventType"
    and "Action eventType = ResyncRequestAction"
  shows "calls (snd (Publish x svc s pubReq)) = calls s @ [CallFindBySource (EventSource evt)] \<and>
         store (snd (Publish x svc s pubReq)) = store s \<and>
         (fst (Publish x svc s pubReq) = Inr () \<longleftrightarrow>
            FindBySource svc (store s) (EventSource evt) \<noteq> None \<and>
            DecodeStatusResyncRequest x evt \<noteq> None)"
proof -
  have P: "Publish x svc s pubReq =
      (case respondResyncStatusRequest x svc s evt of
         (Inl err, s') \<Rightarrow> (Inl (FailedRespondResync err), s')
       | (Inr u, s') \<Rightarrow> (Inr (), s'))"
    using assms by (simp add: Publish_def)
  have "snd (Publish x svc s pubReq) = snd (respondResyncStatusRequest x svc s evt)"
    unfolding P by (simp split: prod.splits sum.splits)
  moreover have "fst (Publish x svc s pubReq) = Inr () \<longleftrightarrow>
      FindBySource svc (store s) (EventSource evt) \<noteq> None \<and>
      DecodeStatusResyncRequest x evt \<noteq> None"
    unfolding P
    by (auto simp add: respondResyncStatusRequest_def callFindBySource_def split: option.splits)
  ultimately show ?thesis by (simp add: respond_calls respond_store)
qed

text \<open>A resync request without any extension: decoding it fails on the first
  required extension, and the request succeeds with one call to \<^verbatim>\<open>FindBySource\<close>.\<close>

theorem Publish_resync_before_decode_witness:
  "ToEvent exampleExternals (exampleResyncRequest ''{}'') = Some (exampleResyncRequest ''{}'') \<and>
   ParseCloudEventsType exampleExternals (EventType (exampleResyncRequest ''{}'')) =
     Some \<lparr>CloudEventsDataType = ManifestEventDataType, SubResource = SubResourceStatus,
           Action = ResyncRequestAction\<rparr> \<and>
   Extensions (exampleResyncRequest ''{}'') = Map.empty \<and>
   decode exampleExternals ManifestEventDataType (exampleResyncRequest ''{}'') =
     Inl (MalformedEvent ExtensionClusterName) \<and>
   fst (Publish exampleExternals (memService 0) (exampleServer [exampleR1, exampleR2])
          (exampleResyncRequest ''{}'')) = Inr () \<and>
   calls (snd (Publish exampleExternals (memService 0) (exampleServer [exampleR1, exampleR2])
                 (exampleResyncRequest ''{}''))) = [CallFindBySource ''source1'']"
  using Publish_resync_before_decode [of exampleExternals "exampleResyncRequest ''{}''"
      "exampleResyncRequest ''{}''"
      "\<lparr>CloudEventsDataType = ManifestEventDataType, SubResource = SubResourceStatus,
           Action = ResyncRequestAction\<rparr>"
      "memService 0" "exampleServer [exampleR1, exampleR2]"]
  by (simp add: example_parse_resync example_decode_resync example_simps memService_simps
      memFindBySource_def exampleDecodeStatusResyncRequest_def exampleServer_def
      example_resync_fields)

section \<open>The ingress side of the status resync: what is broadcast\<close>

lemma findStatusHash_distinct:
  "distinct (map ResourceID hashes) \<Longrightarrow> h \<in> set hashes \<Longrightarrow>
     findStatusHash (ResourceID h) hashes = (StatusHash h, True)"
  by (induction hashes) (auto simp: image_iff)

lemma broadcastChanged_without_failures:
  "broadcastChanged x hashes objs s =
     broadcastChanged x hashes (filter (\<lambda>obj. ResourceStatusHashGetter x obj \<noteq> None) objs) s"
  by (induction objs arbitrary: s) (auto split: prod.splits option.splits)

lemma respond_listed:
  assumes "FindBySource svc (store s) (EventSource evt) = Some objs"
    and "DecodeStatusResyncRequest x evt = Some hashes"
  shows "respondResyncStatusRequest x svc s evt =
     (Inr (),
      if hashes = [] then broadcastAll objs (s\<lparr>calls := calls s @ [CallFindBySource (EventSource evt)]\<rparr>)
      else broadcastChanged x hashes objs
             (s\<lparr>calls := calls s @ [CallFindBySource (EventSource evt)]\<rparr>))"
  using assms by (simp add: respondResyncStatusRequest_def callFindBySource_def)

lemma example_resource_fields:
  "ID (exampleResource rid v t manifest status) = rid"
  "Version (exampleResource rid v t manifest status) = v"
  "Source (exampleResource rid v t manifest status) = ''source1''"
  "ConsumerID (exampleResource rid v t manifest status) = ''cluster1''"
  "Type (exampleResource rid v t manifest status) = t"
  "Manifest (exampleResource rid v t manifest status) = manifest"
  "Status (exampleResource rid v t manifest status) = status"
  by (simp_all add: exampleResource_def)

lemma example_hashes:
  "exampleResourceStatusHashGetter exampleR1 = Some ''{}''"
  "exampleResourceStatusHashGetter exampleR3 = Some ''null''"
  "exampleResourceStatusHashGetter exampleR4 = None"
  "exampleResourceStatusHashGetter exampleR8 = Some ''{}''"
  by (simp_all add: exampleResourceStatusHashGetter_def exampleMarshalJSON_def exampleR1_def
      exampleR3_def exampleR4_def exampleR8_def example_resource_fields)

lemma example_ids:
  "ID exampleR1 = ''r1''" "ID exampleR3 = ''r3''" "ID exampleR4 = ''r4''" "ID exampleR8 = ''r8''"
  "Source exampleR1 = ''source1''" "Source exampleR3 = ''source1''"
  "Source exampleR4 = ''source1''" "Source exampleR8 = ''source1''"
  by (simp_all add: exampleR1_def exampleR3_def exampleR4_def exampleR8_def
      example_resource_fields)

lemma example_find:
  "memFindBySource [exampleR1, exampleR3, exampleR4, exampleR8] ''source1'' =
     Some [exampleR1, exampleR3, exampleR4, exampleR8]"
  by (simp add: memFindBySource_def example_ids)

lemma example_hash_list:
  "exampleDecodeStatusResyncRequest (exampleResyncRequest ''r1={} r3={} r4={}'') =
     Some [\<lparr>ResourceID = ''r1'', StatusHash = ''{}''\<rparr>,
           \<lparr>ResourceID = ''r3'', StatusHash = ''{}''\<rparr>,
           \<lparr>ResourceID = ''r4'', StatusHash = ''{}''\<rparr>]"
  by (simp add: exampleDecodeStatusResyncRequest_def example_resync_fields)

text \<open>
  Claim C2. Let \<open>L\<close> be the resources \<^verbatim>\<open>FindBySource\<close> loads for the source of a resync
  request and \<open>H\<close> the hash list of the request. The answer is a success and appends to
  the broadcasts, in the order of \<open>L\<close>: all of \<open>L\<close> when \<open>H\<close> is empty; otherwise exactly
  the resources of \<open>L\<close> whose id occurs in \<open>H\<close> and whose current status hash is computed
  and differs from the hash \<^verbatim>\<open>findStatusHash\<close> finds for that id. So a resource whose id
  is absent from \<open>H\<close> is skipped without an error, and so is one whose hash is the
  client's. The hash found for an id is that of the entry of \<open>H\<close> with this id when the
  ids of \<open>H\<close> are distinct (the first such entry in general).
\<close>

theorem respondResyncStatusRequest_filter:
  assumes "FindBySource svc (store s) (EventSource evt) = Some L"
    and "DecodeStatusResyncRequest x evt = Some H"
  shows "fst (respondResyncStatusRequest x svc s evt) = Inr () \<and>
    broadcasts (snd (respondResyncStatusRequest x svc s evt)) =
      broadcasts s @
        (if H = [] then L
         else filter (\<lambda>obj. ID obj \<in> ResourceID ` set H \<and>
                 (case ResourceStatusHashGetter x obj of
                    None \<Rightarrow> False
                  | Some currentHash \<Rightarrow> currentHash \<noteq> fst (findStatusHash (ID obj) H))) L) \<and>
    (\<forall>h \<in> set H. distinct (map ResourceID H) \<longrightarrow>
       findStatusHash (ResourceID h) H = (StatusHash h, True))"
  by (simp add: respond_listed [OF assms] broadcastAll_broadcasts broadcastChanged_broadcasts
      findStatusHash_present findStatusHash_distinct)

text \<open>The store holds \<open>r1\<close>, \<open>r3\<close>, \<open>r4\<close> and \<open>r8\<close>; the client reports the hash \<^verbatim>\<open>{}\<close> for
  \<open>r1\<close>, \<open>r3\<close> and \<open>r4\<close>. \<open>r1\<close> still has that hash, \<open>r3\<close> has another one, and \<open>r8\<close> is
  unknown to the client: \<open>r3\<close> alone is broadcast.\<close>

theorem respondResyncStatusRequest_filter_witness:
  "FindBySource (memService 0)
     (store (exampleServer [exampleR1, exampleR3, exampleR4, exampleR8]))
     (EventSource (exampleResyncRequest ''r1={} r3={} r4={}'')) =
     Some [exampleR1, exampleR3, exampleR4, exampleR8] \<and>
   DecodeStatusResyncRequest exampleExternals (exampleResyncRequest ''r1={} r3={} r4={}'') =
     Some [\<lparr>ResourceID = ''r1'', StatusHash = ''{}''\<rparr>,
           \<lparr>ResourceID = ''r3'', StatusHash = ''{}''\<rparr>,
           \<lparr>ResourceID = ''r4'', StatusHash = ''{}''\<rparr>] \<and>
   broadcasts (snd (respondResyncStatusRequest exampleExternals (memService 0)
                      (exampleServer [exampleR1, exampleR3, exampleR4, exampleR8])
                      (exampleResyncRequest ''r1={} r3={} r4={}''))) = [exampleR3]"
  using respondResyncStatusRequest_filter [of "memService 0"
      "exampleServer [exampleR1, exampleR3, exampleR4, exampleR8]"
      "exampleResyncRequest ''r1={} r3={} r4={}''"
      "[exampleR1, exampleR3, exampleR4, exampleR8]" exampleExternals
      "[\<lparr>ResourceID = ''r1'', StatusHash = ''{}''\<rparr>,
        \<lparr>ResourceID = ''r3'', StatusHash = ''{}''\<rparr>,
        \<lparr>ResourceID = ''r4'', StatusHash = ''{}''\<rparr>]"]
  by (simp add: example_find example_hash_list example_ids example_hashes example_simps
      memService_simps exampleServer_def example_resync_fields)

section \<open>The ingress side of the status resync: a hash that cannot be computed\<close>

text \<open>
  Claim C9. In a resync with a non-empty hash list, a loaded resource whose current
  status hash cannot be computed is skipped silently: the answer is a success, no
  resource broadcast by the request is one whose hash getter fails, and the state
  after the request is the one the loop reaches on the loaded resources without
  those whose hash getter fails.
\<close>

theorem respondResyncStatusRequest_hash_error_skipped:
  assumes "FindBySource svc (store s) (EventSource evt) = Some L"
    and "DecodeStatusResyncRequest x evt = Some H"
    and "H \<noteq> []"
  shows "fst (respondResyncStatusRequest x svc s evt) = Inr () \<and>
    (\<forall>obj \<in> set (drop (length (broadcasts s))
                  (broadcasts (snd (respondResyncStatusRequest x svc s evt)))).
       ResourceStatusHashGetter x obj \<noteq> None) \<and>
    snd (respondResyncStatusRequest x svc s evt) =
      broadcastChanged x H (filter (\<lambda>obj. ResourceStatusHashGetter x obj \<noteq> None) L)
        (s\<lparr>calls := calls s @ [CallFindBySource (EventSource evt)]\<rparr>)"
proof -
  let ?s1 = "s\<lparr>calls := calls s @ [CallFindBySource (EventSource evt)]\<rparr>"
  have R: "respondResyncStatusRequest x svc s evt = (Inr (), broadcastChanged x H L ?s1)"
    using assms(3) by (simp add: respond_listed [OF assms(1,2)])
  have sent: "broadcasts (broadcastChanged x H L ?s1) =
      broadcasts s @
      filter (\<lambda>obj. snd (findStatusHash (ID obj) H) \<and>
                (case ResourceStatusHashGetter x obj of
                   None \<Rightarrow> False
                 | Some currentHash \<Rightarrow> currentHash \<noteq> fst (findStatusHash (ID obj) H))) L"
    by (simp add: broadcastChanged_broadcasts)
  show ?thesis
  proof (intro conjI)
    show "fst (respondResyncStatusRequest x svc s evt) = Inr ()"
      by (simp add: R)
    show "\<forall>obj \<in> set (drop (length (broadcasts s))
                  (broadcasts (snd (respondResyncStatusRequest x svc s evt)))).
            ResourceStatusHashGetter x obj \<noteq> None"
      unfolding R snd_conv sent by (auto split: option.splits)
    show "snd (respondResyncStatusRequest x svc s evt) =
        broadcastChanged x H (filter (\<lambda>obj. ResourceStatusHashGetter x obj \<noteq> None) L) ?s1"
      unfolding R snd_conv by (rule broadcastChanged_without_failures)
  qed
qed

text \<open>In the same setting the hash of \<open>r4\<close> cannot be computed: the request succeeds
  and \<open>r4\<close>, although the client lists it, is not among the broadcasts.\<close>

theorem respondResyncStatusRequest_hash_error_skipped_witness:
  "ResourceStatusHashGetter exampleExternals exampleR4 = None \<and>
   FindBySource (memService 0)
     (store (exampleServer [exampleR1, exampleR3, exampleR4, exampleR8]))
     (EventSource (exampleResyncRequest ''r1={} r3={} r4={}'')) =
     Some [exampleR1, exampleR3, exampleR4, exampleR8] \<and>
   fst (respondResyncStatusRequest exampleExternals (memService 0)
          (exampleServer [exampleR1, exampleR3, exampleR4, exampleR8])
          (exampleResyncRequest ''r1={} r3={} r4={}'')) = Inr () \<and>
   snd (respondResyncStatusRequest exampleExternals (memService 0)
          (exampleServer [exampleR1, exampleR3, exampleR4, exampleR8])
          (exampleResyncRequest ''r1={} r3={} r4={}'')) =
     \<lparr>store = [exampleR1, exampleR3, exampleR4, exampleR8],
      calls = [CallFindBySource ''source1''], broadcasts = [exampleR3]\<rparr>"
  using respondResyncStatusRequest_hash_error_skipped [of "memService 0"
      "exampleServer [exampleR1, exampleR3, exampleR4, exampleR8]"
      "exampleResyncRequest ''r1={} r3={} r4={}''"
      "[exampleR1, exampleR3, exampleR4, exampleR8]" exampleExternals
      "[\<lparr>ResourceID = ''r1'', StatusHash = ''{}''\<rparr>,
        \<lparr>ResourceID = ''r3'', StatusHash = ''{}''\<rparr>,
        \<lparr>ResourceID = ''r4'', StatusHash = ''{}''\<rparr>]"]
  by (simp add: example_find example_hash_list example_ids example_hashes example_simps
      memService_simps exampleServer_def example_resync_fields Broadcast_def)

section \<open>encode: the single manifest\<close>

lemma example_status:
  "exampleJSONMapStatusToResourceStatus (Status exampleR1) =
     Some (Some \<lparr>ContentStatus = Map.empty,
                 ReconcileStatus =
                   Some \<lparr>ObservedVersion = 0, SequenceID = [], Conditions = []\<rparr>\<rparr>)"
  "exampleJSONMapStatusToResourceStatus (Status exampleR8) =
     Some (Some \<lparr>ContentStatus = Map.empty, ReconcileStatus = None\<rparr>)"
  "exampleJSONMapStatusToResourceStatus (Status exampleR2) =
     Some (Some \<lparr>ContentStatus = [''ManifestStatus'' \<mapsto> JArray []], ReconcileStatus = None\<rparr>)"
  "exampleJSONMapStatusToResourceStatus (Status exampleR5) =
     Some (Some \<lparr>ContentStatus = [''ManifestStatus'' \<mapsto> JObject []], ReconcileStatus = None\<rparr>)"
  "exampleJSONMapStatusToResourceStatus (Status exampleR7) =
     Some (Some \<lparr>ContentStatus = Map.empty, ReconcileStatus = None\<rparr>)"
  by (simp_all add: exampleJSONMapStatusToResourceStatus_def exampleR1_def exampleR8_def
      exampleR2_def exampleR5_def exampleR7_def example_resource_fields)

lemma example_bundles:
  "\<not> exampleHasManifestBundle exampleR1" "\<not> exampleHasManifestBundle exampleR8"
  "exampleHasManifestBundle exampleR2" "exampleHasManifestBundle exampleR5"
  "exampleHasManifestBundle exampleR7"
  by (simp_all add: exampleHasManifestBundle_def exampleR1_def exampleR8_def exampleR2_def
      exampleR5_def exampleR7_def example_resource_fields)

lemma example_fields:
  "ID exampleR1 = ''r1''" "Version exampleR1 = 1" "Source exampleR1 = ''source1''"
  "ConsumerID exampleR1 = ''cluster1''" "Type exampleR1 = ResourceTypeSingle"
  "ID exampleR2 = ''r2''" "Version exampleR2 = 3" "Source exampleR2 = ''source1''"
  "ConsumerID exampleR2 = ''cluster1''" "Type exampleR2 = ResourceTypeBundle"
  by (simp_all add: exampleR1_def exampleR2_def example_resource_fields)

text \<open>
  Claim C6. Take a resource that does not hold a bundle and whose stored status
  converts to a resource status. With a reconcile status, \<^verbatim>\<open>encode\<close> returns an event of
  the data type \<^verbatim>\<open>manifests\<close> whose payload has the reconcile conditions and one
  feedback value named \<^verbatim>\<open>status\<close>, of type \<^verbatim>\<open>JsonRaw\<close>, holding the JSON text of the whole
  content status. Without one it panics on the nil pointer. So on this branch
  \<^verbatim>\<open>encode\<close> returns an event exactly when the reconcile status is not nil, whereas on
  the bundle branch a nil reconcile status never leads to the panic.
\<close>

theorem encode_single_total:
  assumes "JSONMapStatusToResourceStatus x (Status resource) = Some (Some resourceStatus)"
  shows "(\<not> HasManifestBundle x resource \<longrightarrow>
            (\<forall>reconcileStatus. ReconcileStatus resourceStatus = Some reconcileStatus \<longrightarrow>
               encode x resource =
                 Inr ((NewEvent x (Source resource)
                         \<lparr>CloudEventsDataType = ManifestEventDataType,
                          SubResource = SubResourceStatus, Action = UpdateRequestAction\<rparr>
                         (ID resource) (Version resource) (ConsumerID resource) (Source resource))
                      \<lparr>Data := MarshalManifestStatus x
                         \<lparr>StatusConditions = Conditions reconcileStatus,
                          StatusOfManifest =
                            Some \<lparr>ManifestConditions = Conditions reconcileStatus,
                                  StatusFeedbacks =
                                    [\<lparr>Name = ''status'',
                                      Value = \<lparr>FieldType = JsonRaw,
                                               FieldJsonRaw =
                                                 Some (MarshalJSONMap x
                                                         (ContentStatus resourceStatus))\<rparr>\<rparr>]\<rparr>\<rparr>\<rparr>)) \<and>
            (ReconcileStatus resourceStatus = None \<longrightarrow> encode x resource = Inl NilPointerPanic) \<and>
            ((\<exists>evt. encode x resource = Inr evt) \<longleftrightarrow> ReconcileStatus resourceStatus \<noteq> None)) \<and>
         (HasManifestBundle x resource \<longrightarrow> encode x resource \<noteq> Inl NilPointerPanic)"
  using assms
  by (auto simp add: encode_def encodeEventType_def Let_def split: option.splits)

text \<open>\<open>r1\<close>, a single manifest with a reconcile status and an empty content status.\<close>

theorem encode_single_total_witness:
  "JSONMapStatusToResourceStatus exampleExternals (Status exampleR1) =
     Some (Some \<lparr>ContentStatus = Map.empty,
                 ReconcileStatus =
                   Some \<lparr>ObservedVersion = 0, SequenceID = [], Conditions = []\<rparr>\<rparr>) \<and>
   \<not> HasManifestBundle exampleExternals exampleR1 \<and>
   encode exampleExternals exampleR1 =
     Inr ((NewEvent exampleExternals ''source1''
             \<lparr>CloudEventsDataType = ManifestEventDataType,
              SubResource = SubResourceStatus, Action = UpdateRequestAction\<rparr>
             ''r1'' 1 ''cluster1'' ''source1'')
          \<lparr>Data := MarshalManifestStatus exampleExternals
             \<lparr>StatusConditions = [],
              StatusOfManifest =
                Some \<lparr>ManifestConditions = [],
                      StatusFeedbacks =
                        [\<lparr>Name = ''status'',
                          Value = \<lparr>FieldType = JsonRaw, FieldJsonRaw = Some ''{}''\<rparr>\<rparr>]\<rparr>\<rparr>\<rparr>)"
  using encode_single_total [of exampleExternals exampleR1
      "\<lparr>ContentStatus = Map.empty,
        ReconcileStatus = Some \<lparr>ObservedVersion = 0, SequenceID = [], Conditions = []\<rparr>\<rparr>"]
  by (simp add: example_simps example_status example_bundles example_fields)

section \<open>encode: the bundle\<close>

text \<open>
  Claim C7, as the code has it. Take a resource that holds a bundle and whose stored
  status converts to a resource status. \<^verbatim>\<open>encode\<close> fails with "resource status not found
  in content status" exactly when the content status has no key \<^verbatim>\<open>ManifestStatus\<close>. When
  the key is there, its value is written as JSON and read back as a list of manifest
  conditions: if that succeeds, \<^verbatim>\<open>encode\<close> returns an event of the data type
  \<^verbatim>\<open>manifestbundles\<close> whose payload has this list as its resource status and the
  reconcile conditions, none when the reconcile status is nil, as its conditions; if
  it fails, \<^verbatim>\<open>encode\<close> fails with "failed to unmarshal content status". So an absent key
  is not the only way to fail, and a present value is embedded only if it is such a
  list.
\<close>

theorem encode_bundle_shape:
  assumes "HasManifestBundle x resource"
    and "JSONMapStatusToResourceStatus x (Status resource) = Some (Some resourceStatus)"
  shows "(encode x resource = Inl StatusShapeMismatch \<longleftrightarrow>
            ContentStatus resourceStatus ''ManifestStatus'' = None) \<and>
         (\<forall>manifestStatus. ContentStatus resourceStatus ''ManifestStatus'' = Some manifestStatus \<longrightarrow>
            encode x resource =
              (case UnmarshalManifestConditions x (MarshalJSON x manifestStatus) of
                 None \<Rightarrow> Inl FailedUnmarshalContentStatus
               | Some resourceStatusList \<Rightarrow>
                   Inr ((NewEvent x (Source resource)
                           \<lparr>CloudEventsDataType = ManifestBundleEventDataType,
                            SubResource = SubResourceStatus, Action = UpdateRequestAction\<rparr>
                           (ID resource) (Version resource) (ConsumerID resource)
                           (Source resource))
                        \<lparr>Data := MarshalManifestBundleStatus x
                           \<lparr>BundleConditions =
                              (case ReconcileStatus resourceStatus of
                                 None \<Rightarrow> []
                               | Some reconcileStatus \<Rightarrow> Conditions reconcileStatus),
                            BundleResourceStatus = resourceStatusList\<rparr>\<rparr>)))"
  using assms
  by (auto simp add: encode_def encodeEventType_def Let_def split: option.splits)

text \<open>\<open>r2\<close>, a bundle whose \<^verbatim>\<open>ManifestStatus\<close> is the empty list and whose reconcile
  status is nil, and \<open>r7\<close>, a bundle without \<^verbatim>\<open>ManifestStatus\<close>.\<close>

theorem encode_bundle_shape_witness:
  "HasManifestBundle exampleExternals exampleR2 \<and>
   JSONMapStatusToResourceStatus exampleExternals (Status exampleR2) =
     Some (Some \<lparr>ContentStatus = [''ManifestStatus'' \<mapsto> JArray []], ReconcileStatus = None\<rparr>) \<and>
   UnmarshalManifestConditions exampleExternals (MarshalJSON exampleExternals (JArray [])) =
     Some [] \<and>
   encode exampleExternals exampleR2 =
     Inr ((NewEvent exampleExternals ''source1''
             \<lparr>CloudEventsDataType = ManifestBundleEventDataType,
              SubResource = SubResourceStatus, Action = UpdateRequestAction\<rparr>
             ''r2'' 3 ''cluster1'' ''source1'')
          \<lparr>Data := MarshalManifestBundleStatus exampleExternals
             \<lparr>BundleConditions = [], BundleResourceStatus = []\<rparr>\<rparr>) \<and>
   encode exampleExternals exampleR7 = Inl StatusShapeMismatch"
  using encode_bundle_shape [of exampleExternals exampleR2
      "\<lparr>ContentStatus = [''ManifestStatus'' \<mapsto> JArray []], ReconcileStatus = None\<rparr>"]
    encode_bundle_shape [of exampleExternals exampleR7
      "\<lparr>ContentStatus = Map.empty, ReconcileStatus = None\<rparr>"]
  by (simp add: example_simps example_status example_bundles example_fields
      exampleMarshalJSON_def exampleUnmarshalManifestConditions_def)

text \<open>The claim as the spec words it fails on \<open>r5\<close>: the content status of this bundle
  has the key \<^verbatim>\<open>ManifestStatus\<close>, but with an object as its value. \<^verbatim>\<open>json.Marshal\<close> writes
  it as \<^verbatim>\<open>{}\<close>, \<^verbatim>\<open>json.Unmarshal\<close> cannot read an object into a slice of manifest
  conditions, and \<^verbatim>\<open>encode\<close> fails although the key is present; nothing is embedded.\<close>

theorem encode_bundle_shape_counterexample:
  "HasManifestBundle exampleExternals exampleR5 \<and>
   JSONMapStatusToResourceStatus exampleExternals (Status exampleR5) =
     Some (Some \<lparr>ContentStatus = [''ManifestStatus'' \<mapsto> JObject []], ReconcileStatus = None\<rparr>) \<and>
   MarshalJSON exampleExternals (JObject []) = ''{}'' \<and>
   UnmarshalManifestConditions exampleExternals ''{}'' = None \<and>
   encode exampleExternals exampleR5 = Inl FailedUnmarshalContentStatus"
  by (simp add: encode_def Let_def example_simps example_status example_bundles
      exampleMarshalJSON_def exampleUnmarshalManifestConditions_def)

section \<open>decode: the errors\<close>

lemma example_request_fields:
  "EventType (exampleRequest t rid v) = t"
  "EventSource (exampleRequest t rid v) = ''source1''"
  "Data (exampleRequest t rid v) = ''{}''"
  "Extensions (exampleRequest t rid v) ExtensionClusterName = Some (CEString ''cluster1'')"
  "Extensions (exampleRequest t rid v) ExtensionResourceID = Some (CEString rid)"
  "Extensions (exampleRequest t rid v) ExtensionResourceVersion = Some (CEInteger v)"
  "Extensions (exampleRequest t rid v) ExtensionDeletionTimestamp = None"
  by (simp_all add: exampleRequest_def extension_names)

text \<open>
  Claim C5, as the code has it. \<^verbatim>\<open>decode\<close> checks the three required extensions
  first, then the optional deletion timestamp, and the data type last. It fails with
  a malformed-event error exactly when \<^verbatim>\<open>clustername\<close> or \<^verbatim>\<open>resourceid\<close> does not convert
  to a string or \<^verbatim>\<open>resourceversion\<close> does not convert to an integer, whatever the data
  type. It fails with the unsupported-data-type error exactly when the three
  extensions convert, the deletion timestamp is absent or converts, and the data type
  is neither \<^verbatim>\<open>manifests\<close> nor \<^verbatim>\<open>manifestbundles\<close>. It succeeds only if the three
  extensions convert and the data type is one of the two. Since the SDK's conversions
  refuse a missing value, an event that misses one of the three extensions is
  malformed, and a decoded event has all three.
\<close>

theorem decode_error_conditions:
  "((\<exists>k. decode x eventDataType evt = Inl (MalformedEvent k)) \<longleftrightarrow>
      ToString x (Extensions evt ExtensionClusterName) = None \<or>
      ToString x (Extensions evt ExtensionResourceID) = None \<or>
      ToInteger x (Extensions evt ExtensionResourceVersion) = None) \<and>
   (decode x eventDataType evt = Inl (UnsupportedDataType d) \<longleftrightarrow>
      d = eventDataType \<and> eventDataType \<noteq> ManifestEventDataType \<and>
      eventDataType \<noteq> ManifestBundleEventDataType \<and>
      ToString x (Extensions evt ExtensionClusterName) \<noteq> None \<and>
      ToString x (Extensions evt ExtensionResourceID) \<noteq> None \<and>
      ToInteger x (Extensions evt ExtensionResourceVersion) \<noteq> None \<and>
      (case Extensions evt ExtensionDeletionTimestamp of
         None \<Rightarrow> True
       | Some deletionTimestampValue \<Rightarrow> ToTime x deletionTimestampValue \<noteq> None)) \<and>
   (\<forall>resource. decode x eventDataType evt = Inr resource \<longrightarrow>
      ToString x (Extensions evt ExtensionClusterName) \<noteq> None \<and>
      ToString x (Extensions evt ExtensionResourceID) \<noteq> None \<and>
      ToInteger x (Extensions evt ExtensionResourceVersion) \<noteq> None \<and>
      (eventDataType = ManifestEventDataType \<or> eventDataType = ManifestBundleEventDataType)) \<and>
   (ToString x None = None \<longrightarrow> ToInteger x None = None \<longrightarrow>
      (Extensions evt ExtensionClusterName = None \<or> Extensions evt ExtensionResourceID = None \<or>
       Extensions evt ExtensionResourceVersion = None \<longrightarrow>
         (\<exists>k. decode x eventDataType evt = Inl (MalformedEvent k))) \<and>
      (\<forall>resource. decode x eventDataType evt = Inr resource \<longrightarrow>
         Extensions evt ExtensionClusterName \<noteq> None \<and>
         Extensions evt ExtensionResourceID \<noteq> None \<and>
         Extensions evt ExtensionResourceVersion \<noteq> None))"
proof -
  have malformed: "(\<exists>k. decode x eventDataType evt = Inl (MalformedEvent k)) \<longleftrightarrow>
      ToString x (Extensions evt ExtensionClusterName) = None \<or>
      ToString x (Extensions evt ExtensionResourceID) = None \<or>
      ToInteger x (Extensions evt ExtensionResourceVersion) = None"
    by (auto simp add: decode_def Let_def split: option.splits sum.splits if_splits)
  have unsupported: "decode x eventDataType evt = Inl (UnsupportedDataType d) \<longleftrightarrow>
      d = eventDataType \<and> eventDataType \<noteq> ManifestEventDataType \<and>
      eventDataType \<noteq> ManifestBundleEventDataType \<and>
      ToString x (Extensions evt ExtensionClusterName) \<noteq> None \<and>
      ToString x (Extensions evt ExtensionResourceID) \<noteq> None \<and>
      ToInteger x (Extensions evt ExtensionResourceVersion) \<noteq> None \<and>
      (case Extensions evt ExtensionDeletionTimestamp of
         None \<Rightarrow> True
       | Some deletionTimestampValue \<Rightarrow> ToTime x deletionTimestampValue \<noteq> None)"
    by (auto simp add: decode_def Let_def split: option.splits sum.splits if_splits)
  have decoded: "\<forall>resource. decode x eventDataType evt = Inr resource \<longrightarrow>
      ToString x (Extensions evt ExtensionClusterName) \<noteq> None \<and>
      ToString x (Extensions evt ExtensionResourceID) \<noteq> None \<and>
      ToInteger x (Extensions evt ExtensionResourceVersion) \<noteq> None \<and>
      (eventDataType = ManifestEventDataType \<or> eventDataType = ManifestBundleEventDataType)"
    by (auto simp add: decode_def Let_def split: option.splits sum.splits if_splits)
  have missing: "ToString x None = None \<longrightarrow> ToInteger x None = None \<longrightarrow>
      (Extensions evt ExtensionClusterName = None \<or> Extensions evt ExtensionResourceID = None \<or>
       Extensions evt ExtensionResourceVersion = None \<longrightarrow>
         (\<exists>k. decode x eventDataType evt = Inl (MalformedEvent k))) \<and>
      (\<forall>resource. decode x eventDataType evt = Inr resource \<longrightarrow>
         Extensions evt ExtensionClusterName \<noteq> None \<and>
         Extensions evt ExtensionResourceID \<noteq> None \<and>
         Extensions evt ExtensionResourceVersion \<noteq> None)"
    using malformed decoded by auto
  from malformed unsupported decoded missing show ?thesis by blast
qed

text \<open>The delete request for \<open>r6\<close> has the three extensions: read with a data type
  \<^verbatim>\<open>widgets\<close> it is refused for the data type; a request without extensions is refused
  as malformed.\<close>

theorem decode_error_conditions_witness:
  "ToString exampleExternals None = None \<and> ToInteger exampleExternals None = None \<and>
   decode exampleExternals
     \<lparr>DataGroup = ''io.open-cluster-management.works'', DataVersion = ''v1alpha1'',
      DataResource = ''widgets''\<rparr> exampleDeleteRequest =
     Inl (UnsupportedDataType
            \<lparr>DataGroup = ''io.open-cluster-management.works'', DataVersion = ''v1alpha1'',
             DataResource = ''widgets''\<rparr>) \<and>
   Extensions (exampleResyncRequest ''{}'') ExtensionClusterName = None \<and>
   (\<exists>k. decode exampleExternals ManifestEventDataType (exampleResyncRequest ''{}'') =
          Inl (MalformedEvent k))"
  using decode_error_conditions [of exampleExternals
      "\<lparr>DataGroup = ''io.open-cluster-management.works'', DataVersion = ''v1alpha1'',
        DataResource = ''widgets''\<rparr>" exampleDeleteRequest
      "\<lparr>DataGroup = ''io.open-cluster-management.works'', DataVersion = ''v1alpha1'',
        DataResource = ''widgets''\<rparr>"]
    decode_error_conditions [of exampleExternals ManifestEventDataType
      "exampleResyncRequest ''{}''"]
  by (simp add: exampleDeleteRequest_def example_request_fields example_resync_fields
      example_simps exampleToString_def exampleToInteger_def ManifestEventDataType_def
      ManifestBundleEventDataType_def)

text \<open>The claim as the spec words it fails on an event with a data type \<^verbatim>\<open>widgets\<close> and
  no extensions: the data type is neither of the two, but \<^verbatim>\<open>decode\<close> returns "failed to
  get clustername extension" before it looks at the data type.\<close>

theorem decode_error_conditions_counterexample:
  "\<lparr>DataGroup = ''io.open-cluster-management.works'', DataVersion = ''v1alpha1'',
    DataResource = ''widgets''\<rparr> \<noteq> ManifestEventDataType \<and>
   \<lparr>DataGroup = ''io.open-cluster-management.works'', DataVersion = ''v1alpha1'',
    DataResource = ''widgets''\<rparr> \<noteq> ManifestBundleEventDataType \<and>
   decode exampleExternals
     \<lparr>DataGroup = ''io.open-cluster-management.works'', DataVersion = ''v1alpha1'',
      DataResource = ''widgets''\<rparr>
     \<lparr>EventType = ''io.open-cluster-management.works.v1alpha1.widgets.spec.create_request'',
      EventSource = ''source1'', Extensions = Map.empty, Data = ''{}''\<rparr> =
     Inl (MalformedEvent ''clustername'')"
  by (simp add: decode_def example_simps exampleToString_def ManifestEventDataType_def
      ManifestBundleEventDataType_def ExtensionClusterName_def)

section \<open>encode and decode: the round trip\<close>

lemma decode_zero_fields:
  "decode x eventDataType evt = Inr resource \<Longrightarrow>
     Type resource = [] \<and> Status resource = Map.empty \<and> Source resource = EventSource evt"
  by (auto simp add: decode_def Let_def split: option.splits sum.splits if_splits)

lemma encode_event:
  "encode x resource = Inr evt \<Longrightarrow>
     \<exists>payload. evt =
       (NewEvent x (Source resource) (encodeEventType x resource) (ID resource)
          (Version resource) (ConsumerID resource) (Source resource))\<lparr>Data := payload\<rparr>"
  by (auto simp add: encode_def Let_def split: option.splits if_splits)

text \<open>
  Claim C3, as the code has it. Let \<^verbatim>\<open>encode\<close> succeed on a resource \<open>r\<close> with the event
  \<open>evt\<close>, and read \<open>evt\<close> with \<^verbatim>\<open>decode\<close> at the data type \<^verbatim>\<open>encode\<close> chose. Whatever
  \<^verbatim>\<open>decode\<close> returns has an empty type and an empty status: the resource literal of
  \<^verbatim>\<open>decode\<close> does not set them, so the type of \<open>r\<close> does not come back. And if the SDK's
  builder populates the source and the extensions \<^verbatim>\<open>clustername\<close>, \<^verbatim>\<open>resourceid\<close> and
  \<^verbatim>\<open>resourceversion\<close> with typed values and no deletion timestamp, and the SDK's
  conversions return such values unchanged, then \<^verbatim>\<open>decode\<close> either fails on the payload
  or returns a resource with the id, the version, the consumer id and the source of
  \<open>r\<close>.
\<close>

theorem decode_encode_fields:
  assumes "encode x r = Inr evt"
  shows "(\<forall>r'. decode x (CloudEventsDataType (encodeEventType x r)) evt = Inr r' \<longrightarrow>
            Type r' = [] \<and> Status r' = Map.empty) \<and>
         (EventSource (NewEvent x (Source r) (encodeEventType x r) (ID r) (Version r)
                         (ConsumerID r) (Source r)) = Source r \<longrightarrow>
          Extensions (NewEvent x (Source r) (encodeEventType x r) (ID r) (Version r)
                        (ConsumerID r) (Source r)) ExtensionResourceID =
            Some (CEString (ID r)) \<longrightarrow>
          Extensions (NewEvent x (Source r) (encodeEventType x r) (ID r) (Version r)
                        (ConsumerID r) (Source r)) ExtensionResourceVersion =
            Some (CEInteger (Version r)) \<longrightarrow>
          Extensions (NewEvent x (Source r) (encodeEventType x r) (ID r) (Version r)
                        (ConsumerID r) (Source r)) ExtensionClusterName =
            Some (CEString (ConsumerID r)) \<longrightarrow>
          Extensions (NewEvent x (Source r) (encodeEventType x r) (ID r) (Version r)
                        (ConsumerID r) (Source r)) ExtensionDeletionTimestamp = None \<longrightarrow>
          ToString x (Some (CEString (ConsumerID r))) = Some (ConsumerID r) \<longrightarrow>
          ToString x (Some (CEString (ID r))) = Some (ID r) \<longrightarrow>
          ToInteger x (Some (CEInteger (Version r))) = Some (Version r) \<longrightarrow>
            (case decode x (CloudEventsDataType (encodeEventType x r)) evt of
               Inr r' \<Rightarrow>
                 ID r' = ID r \<and> Version r' = Version r \<and> ConsumerID r' = ConsumerID r \<and>
                 Source r' = Source r
             | Inl e \<Rightarrow> e = FailedUnmarshalEventData \<or> e = FailedUnmarshalManifestWork))"
proof (intro conjI impI)
  show "\<forall>r'. decode x (CloudEventsDataType (encodeEventType x r)) evt = Inr r' \<longrightarrow>
            Type r' = [] \<and> Status r' = Map.empty"
    using decode_zero_fields by blast
next
  let ?built = "NewEvent x (Source r) (encodeEventType x r) (ID r) (Version r)
                  (ConsumerID r) (Source r)"
  assume src: "EventSource ?built = Source r"
    and ext: "Extensions ?built ExtensionResourceID = Some (CEString (ID r))"
      "Extensions ?built ExtensionResourceVersion = Some (CEInteger (Version r))"
      "Extensions ?built ExtensionClusterName = Some (CEString (ConsumerID r))"
      "Extensions ?built ExtensionDeletionTimestamp = None"
    and conv: "ToString x (Some (CEString (ConsumerID r))) = Some (ConsumerID r)"
      "ToString x (Some (CEString (ID r))) = Some (ID r)"
      "ToInteger x (Some (CEInteger (Version r))) = Some (Version r)"
  from encode_event [OF assms] obtain payload where evt: "evt = ?built\<lparr>Data := payload\<rparr>"
    by blast
  have fields: "EventSource evt = Source r"
    "Extensions evt ExtensionClusterName = Some (CEString (ConsumerID r))"
    "Extensions evt ExtensionResourceID = Some (CEString (ID r))"
    "Extensions evt ExtensionResourceVersion = Some (CEInteger (Version r))"
    "Extensions evt ExtensionDeletionTimestamp = None"
    by (simp_all add: evt src ext)
  show "case decode x (CloudEventsDataType (encodeEventType x r)) evt of
          Inr r' \<Rightarrow>
            ID r' = ID r \<and> Version r' = Version r \<and> ConsumerID r' = ConsumerID r \<and>
            Source r' = Source r
        | Inl e \<Rightarrow> e = FailedUnmarshalEventData \<or> e = FailedUnmarshalManifestWork"
    by (simp add: decode_def Let_def fields conv encodeEventType_def
        split: option.splits sum.splits)
qed

lemma example_event_fields:
  "EventSource (exampleNewEvent source t rid v c orig) = source"
  "Extensions (exampleNewEvent source t rid v c orig) =
     [ExtensionResourceID \<mapsto> CEString rid, ExtensionResourceVersion \<mapsto> CEInteger v,
      ExtensionClusterName \<mapsto> CEString c, ExtensionOriginalSource \<mapsto> CEString orig]"
  "Data (exampleNewEvent source t rid v c orig) = []"
  by (simp_all add: exampleNewEvent_def)

lemma example_encode_r2:
  "encode exampleExternals exampleR2 =
     Inr ((exampleNewEvent ''source1''
             \<lparr>CloudEventsDataType = ManifestBundleEventDataType,
              SubResource = SubResourceStatus, Action = UpdateRequestAction\<rparr>
             ''r2'' 3 ''cluster1'' ''source1'')\<lparr>Data := ''manifest-bundle-status''\<rparr>)"
  by (simp add: encode_def encodeEventType_def Let_def example_simps example_status
      example_bundles example_fields exampleMarshalJSON_def
      exampleUnmarshalManifestConditions_def)

lemma example_encode_r1:
  "encode exampleExternals exampleR1 =
     Inr ((exampleNewEvent ''source1''
             \<lparr>CloudEventsDataType = ManifestEventDataType,
              SubResource = SubResourceStatus, Action = UpdateRequestAction\<rparr>
             ''r1'' 1 ''cluster1'' ''source1'')\<lparr>Data := ''manifest-status''\<rparr>)"
  by (simp add: encode_def encodeEventType_def Let_def example_simps example_status
      example_bundles example_fields)

text \<open>The bundle \<open>r2\<close>: its event is read back with the id \<open>r2\<close> and the version 3,
  and with an empty type.\<close>

theorem decode_encode_fields_witness:
  "encode exampleExternals exampleR2 =
     Inr ((exampleNewEvent ''source1''
             \<lparr>CloudEventsDataType = ManifestBundleEventDataType,
              SubResource = SubResourceStatus, Action = UpdateRequestAction\<rparr>
             ''r2'' 3 ''cluster1'' ''source1'')\<lparr>Data := ''manifest-bundle-status''\<rparr>) \<and>
   decode exampleExternals ManifestBundleEventDataType
     ((exampleNewEvent ''source1''
         \<lparr>CloudEventsDataType = ManifestBundleEventDataType,
          SubResource = SubResourceStatus, Action = UpdateRequestAction\<rparr>
         ''r2'' 3 ''cluster1'' ''source1'')\<lparr>Data := ''manifest-bundle-status''\<rparr>) =
     Inr (exampleResource ''r2'' 3 [] [''kind'' \<mapsto> JString ''ManifestWork''] Map.empty)"
  using decode_encode_fields [of exampleExternals exampleR2
      "(exampleNewEvent ''source1''
          \<lparr>CloudEventsDataType = ManifestBundleEventDataType,
           SubResource = SubResourceStatus, Action = UpdateRequestAction\<rparr>
          ''r2'' 3 ''cluster1'' ''source1'')\<lparr>Data := ''manifest-bundle-status''\<rparr>"]
  by (simp add: example_encode_r2 decode_def Let_def example_simps example_event_fields
      extension_names exampleToString_def exampleToInteger_def exampleDataAsManifestBundle_def
      exampleUnmarshalJSONMap_def exampleResource_def ManifestEventDataType_def
      ManifestBundleEventDataType_def)

text \<open>The claim as the spec words it fails on \<open>r1\<close>, a resource of type \<^verbatim>\<open>Single\<close>:
  \<^verbatim>\<open>encode\<close> succeeds, \<^verbatim>\<open>decode\<close> succeeds on the event, and the type of the decoded
  resource is empty.\<close>

theorem decode_encode_fields_counterexample:
  "Type exampleR1 = ''Single'' \<and>
   encode exampleExternals exampleR1 =
     Inr ((exampleNewEvent ''source1''
             \<lparr>CloudEventsDataType = ManifestEventDataType,
              SubResource = SubResourceStatus, Action = UpdateRequestAction\<rparr>
             ''r1'' 1 ''cluster1'' ''source1'')\<lparr>Data := ''manifest-status''\<rparr>) \<and>
   decode exampleExternals ManifestEventDataType
     ((exampleNewEvent ''source1''
         \<lparr>CloudEventsDataType = ManifestEventDataType,
          SubResource = SubResourceStatus, Action = UpdateRequestAction\<rparr>
         ''r1'' 1 ''cluster1'' ''source1'')\<lparr>Data := ''manifest-status''\<rparr>) =
     Inr \<lparr>ID = ''r1'', DeletedAt = None, Version = 1, Source = ''source1'',
          ConsumerID = ''cluster1'', Type = [], Manifest = Map.empty, Status = Map.empty\<rparr>"
  by (simp add: example_encode_r1 example_fields ResourceTypeSingle_def decode_def Let_def
      example_simps example_event_fields extension_names exampleToString_def
      exampleToInteger_def exampleDataAsManifest_def)

section \<open>Publish: the update request\<close>

lemma memGet_replaced:
  "memGet st rid = Some found \<Longrightarrow> ID u = rid \<Longrightarrow>
     memGet (map (\<lambda>r. if ID r = rid then u else r) st) rid = Some u"
  by (induction st) (auto simp add: memGet_def)

lemma memGet_ID: "memGet st rid = Some found \<Longrightarrow> ID found = rid"
  by (induction st) (auto simp add: memGet_def split: if_splits)

lemma memUpdate_stored:
  assumes "memGet st (ID res) = Some found"
  shows "memGet (fst (memUpdate st res)) (ID res) =
           Some (found\<lparr>Version := Version res, Manifest := Manifest res\<rparr>)"
  using assms memGet_ID [OF assms]
  by (simp add: memUpdate_def Let_def memGet_replaced)

lemma publish_update:
  assumes "ToEvent x pubReq = Some evt"
    and "ParseCloudEventsType x (EventType evt) = Some eventType"
    and "Action eventType = UpdateRequestAction"
    and "decode x (CloudEventsDataType eventType) evt = Inr res"
  shows "Publish x svc s pubReq =
     (if HasManifestBundle x res then
        (case callGet svc s (ID res) of
           (None, s') \<Rightarrow> (Inl FailedGet, s')
         | (Some found, s') \<Rightarrow>
             publishUpdate svc s'
               (if sint (Version found) < sint (Version res)
                then res\<lparr>Version := Version found\<rparr> else res))
      else publishUpdate svc s res)"
  using assms by (simp add: Publish_def actions_distinct)

lemma publishUpdate_state:
  "snd (publishUpdate svc s res) =
     s\<lparr>store := fst (Update svc (store s) res), calls := calls s @ [CallUpdate res]\<rparr>"
  by (simp add: publishUpdate_def callUpdate_def split: prod.splits option.splits)

text \<open>
  Claim C1. Take a publish request whose event type parses with the action
  \<^verbatim>\<open>update_request\<close> and whose event decodes to a resource \<open>res\<close>. If \<open>res\<close> holds a bundle,
  the broker first reads the stored resource with the id of \<open>res\<close>; if that fails the
  request fails and \<^verbatim>\<open>Update\<close> is not called; otherwise \<^verbatim>\<open>Update\<close> is called next, with
  \<open>res\<close> carrying the stored version when the stored version is smaller than the
  incoming one (as signed 32-bit numbers), and with \<open>res\<close> unchanged when it is not. If
  \<open>res\<close> does not hold a bundle, nothing is read and \<^verbatim>\<open>Update\<close> is called with \<open>res\<close>
  unchanged. On the resource service in memory, after a bundle update with a stored
  version smaller than the incoming one, the stored version is the one stored before
  (\<open>held\<close> is the resource stored before, \<open>s0\<close> the state of that server).
\<close>

theorem Publish_update_version_clash:
  assumes "ToEvent x pubReq = Some evt"
    and "ParseCloudEventsType x (EventType evt) = Some eventType"
    and "Action eventType = UpdateRequestAction"
    and "decode x (CloudEventsDataType eventType) evt = Inr res"
  shows "(HasManifestBundle x res \<longrightarrow>
            (\<forall>found. Get svc (store s) (ID res) = Some found \<longrightarrow>
               calls (snd (Publish x svc s pubReq)) =
                 calls s @
                 [CallGet (ID res),
                  CallUpdate (if sint (Version found) < sint (Version res)
                              then res\<lparr>Version := Version found\<rparr> else res)]) \<and>
            (Get svc (store s) (ID res) = None \<longrightarrow>
               Publish x svc s pubReq =
                 (Inl FailedGet, s\<lparr>calls := calls s @ [CallGet (ID res)]\<rparr>))) \<and>
         (\<not> HasManifestBundle x res \<longrightarrow>
            calls (snd (Publish x svc s pubReq)) = calls s @ [CallUpdate res]) \<and>
         (HasManifestBundle x res \<longrightarrow> memGet (store s0) (ID res) = Some held \<longrightarrow>
          sint (Version held) < sint (Version res) \<longrightarrow>
            map_option Version
              (memGet (store (snd (Publish x (memService now) s0 pubReq))) (ID res)) =
            Some (Version held))"
proof (intro conjI impI allI)
  fix found
  assume "HasManifestBundle x res" "Get svc (store s) (ID res) = Some found"
  then show "calls (snd (Publish x svc s pubReq)) =
      calls s @
      [CallGet (ID res),
       CallUpdate (if sint (Version found) < sint (Version res)
                   then res\<lparr>Version := Version found\<rparr> else res)]"
    by (simp add: publish_update [OF assms] callGet_def publishUpdate_state)
next
  assume "HasManifestBundle x res" "Get svc (store s) (ID res) = None"
  then show "Publish x svc s pubReq =
      (Inl FailedGet, s\<lparr>calls := calls s @ [CallGet (ID res)]\<rparr>)"
    by (simp add: publish_update [OF assms] callGet_def)
next
  assume "\<not> HasManifestBundle x res"
  then show "calls (snd (Publish x svc s pubReq)) = calls s @ [CallUpdate res]"
    by (simp add: publish_update [OF assms] publishUpdate_state)
next
  assume holds: "HasManifestBundle x res"
    and stored: "memGet (store s0) (ID res) = Some held"
    and smaller: "sint (Version held) < sint (Version res)"
  let ?res = "res\<lparr>Version := Version held\<rparr>"
  have "store (snd (Publish x (memService now) s0 pubReq)) = fst (memUpdate (store s0) ?res)"
    using holds stored smaller
    by (simp add: publish_update [OF assms] callGet_def publishUpdate_state memService_simps)
  moreover have "memGet (fst (memUpdate (store s0) ?res)) (ID ?res) =
      Some (held\<lparr>Version := Version ?res, Manifest := Manifest ?res\<rparr>)"
    using stored by (intro memUpdate_stored) simp
  ultimately show "map_option Version
      (memGet (store (snd (Publish x (memService now) s0 pubReq))) (ID res)) =
      Some (Version held)"
    by simp
qed

lemma example_parse_bundle_update:
  "exampleParseCloudEventsType (EventType exampleBundleUpdateRequest) =
     Some \<lparr>CloudEventsDataType = ManifestBundleEventDataType, SubResource = ''spec'',
           Action = UpdateRequestAction\<rparr>"
  by (simp add: exampleParseCloudEventsType_def exampleBundleUpdateRequest_def
      exampleRequest_def)

lemma example_decode_bundle_update:
  "decode exampleExternals ManifestBundleEventDataType exampleBundleUpdateRequest =
     Inr (exampleResource ''r2'' 7 [] [''kind'' \<mapsto> JString ''ManifestWork''] Map.empty)"
  by (simp add: decode_def Let_def exampleBundleUpdateRequest_def example_request_fields
      example_simps exampleToString_def exampleToInteger_def exampleDataAsManifestBundle_def
      exampleUnmarshalJSONMap_def exampleResource_def ManifestEventDataType_def
      ManifestBundleEventDataType_def)

lemma example_stored_r2:
  "memGet [exampleR2] ''r2'' = Some exampleR2"
  by (simp add: memGet_def example_fields)

text \<open>The spec's scenario: the store holds the bundle \<open>r2\<close> in version 3 and an
  update request for \<open>r2\<close> arrives with version 7. \<^verbatim>\<open>Update\<close> is called with version 3,
  and version 3 is what the store holds afterwards.\<close>

theorem Publish_update_version_clash_witness:
  "ToEvent exampleExternals exampleBundleUpdateRequest = Some exampleBundleUpdateRequest \<and>
   ParseCloudEventsType exampleExternals (EventType exampleBundleUpdateRequest) =
     Some \<lparr>CloudEventsDataType = ManifestBundleEventDataType, SubResource = ''spec'',
           Action = UpdateRequestAction\<rparr> \<and>
   decode exampleExternals ManifestBundleEventDataType exampleBundleUpdateRequest =
     Inr (exampleResource ''r2'' 7 [] [''kind'' \<mapsto> JString ''ManifestWork''] Map.empty) \<and>
   HasManifestBundle exampleExternals
     (exampleResource ''r2'' 7 [] [''kind'' \<mapsto> JString ''ManifestWork''] Map.empty) \<and>
   Get (memService 0) (store (exampleServer [exampleR2])) ''r2'' = Some exampleR2 \<and>
   sint (Version exampleR2) < sint (7 :: int32) \<and>
   calls (snd (Publish exampleExternals (memService 0) (exampleServer [exampleR2])
                 exampleBundleUpdateRequest)) =
     [CallGet ''r2'',
      CallUpdate (exampleResource ''r2'' 3 [] [''kind'' \<mapsto> JString ''ManifestWork''] Map.empty)] \<and>
   map_option Version
     (memGet (store (snd (Publish exampleExternals (memService 0) (exampleServer [exampleR2])
                            exampleBundleUpdateRequest))) ''r2'') = Some 3"
  using Publish_update_version_clash [where x = exampleExternals
      and pubReq = exampleBundleUpdateRequest and evt = exampleBundleUpdateRequest
      and eventType = "\<lparr>CloudEventsDataType = ManifestBundleEventDataType,
        SubResource = ''spec'', Action = UpdateRequestAction\<rparr>"
      and res = "exampleResource ''r2'' 7 [] [''kind'' \<mapsto> JString ''ManifestWork''] Map.empty"
      and svc = "memService 0" and s = "exampleServer [exampleR2]"
      and now = 0 and ?s0.0 = "exampleServer [exampleR2]" and held = exampleR2]
  by (simp add: example_simps example_parse_bundle_update example_decode_bundle_update
      memService_simps exampleServer_def example_stored_r2 example_fields
      example_resource_fields exampleHasManifestBundle_def exampleResource_def)

section \<open>Subscribe: the topic\<close>

text \<open>The matcher decides membership in the set of texts of an expression.\<close>

lemma emptyOk_words: "emptyOk r \<longleftrightarrow> [] \<in> words r"
  by (induction r) (auto intro: reps.intros)

lemma reps_cons:
  "c # w \<in> reps A \<longleftrightarrow> (\<exists>u v. w = u @ v \<and> c # u \<in> A \<and> v \<in> reps A)"
proof
  assume "c # w \<in> reps A"
  then show "\<exists>u v. w = u @ v \<and> c # u \<in> A \<and> v \<in> reps A"
  proof (induction "c # w" rule: reps.induct)
    case (reps_more u v)
    then show ?case
      by (cases u) auto
  qed
next
  assume "\<exists>u v. w = u @ v \<and> c # u \<in> A \<and> v \<in> reps A"
  then obtain u v where "w = u @ v" "c # u \<in> A" "v \<in> reps A" by blast
  then show "c # w \<in> reps A"
    using reps.reps_more [of "c # u" A v] by simp
qed

lemma seq_cons:
  "c # w \<in> {u @ v | u v. u \<in> A \<and> v \<in> B} \<longleftrightarrow>
     ([] \<in> A \<and> c # w \<in> B) \<or> (\<exists>u v. w = u @ v \<and> c # u \<in> A \<and> v \<in> B)"
proof
  assume "c # w \<in> {u @ v | u v. u \<in> A \<and> v \<in> B}"
  then obtain u v where uv: "c # w = u @ v" "u \<in> A" "v \<in> B" by blast
  show "([] \<in> A \<and> c # w \<in> B) \<or> (\<exists>u v. w = u @ v \<and> c # u \<in> A \<and> v \<in> B)"
  proof (cases u)
    case Nil
    with uv show ?thesis by simp
  next
    case (Cons a u')
    with uv have "w = u' @ v" "c # u' \<in> A" by simp_all
    with uv(3) show ?thesis by blast
  qed
next
  assume "([] \<in> A \<and> c # w \<in> B) \<or> (\<exists>u v. w = u @ v \<and> c # u \<in> A \<and> v \<in> B)"
  then show "c # w \<in> {u @ v | u v. u \<in> A \<and> v \<in> B}"
  proof
    assume "[] \<in> A \<and> c # w \<in> B"
    then have "c # w = [] @ (c # w) \<and> [] \<in> A \<and> c # w \<in> B" by simp
    then show ?thesis by blast
  next
    assume "\<exists>u v. w = u @ v \<and> c # u \<in> A \<and> v \<in> B"
    then obtain u v where "w = u @ v" "c # u \<in> A" "v \<in> B" by blast
    then have "c # w = (c # u) @ v \<and> c # u \<in> A \<and> v \<in> B" by simp
    then show ?thesis by blast
  qed
qed

lemma step_words: "w \<in> words (step c r) \<longleftrightarrow> c # w \<in> words r"
proof (induction r arbitrary: w)
  case (Seq r t)
  have "w \<in> words (step c (Seq r t)) \<longleftrightarrow>
      (emptyOk r \<and> w \<in> words (step c t)) \<or>
      (\<exists>u v. w = u @ v \<and> u \<in> words (step c r) \<and> v \<in> words t)"
    by auto
  also have "\<dots> \<longleftrightarrow>
      ([] \<in> words r \<and> c # w \<in> words t) \<or>
      (\<exists>u v. w = u @ v \<and> c # u \<in> words r \<and> v \<in> words t)"
    by (simp add: Seq emptyOk_words)
  also have "\<dots> \<longleftrightarrow> c # w \<in> words (Seq r t)"
    by (simp only: words.simps seq_cons)
  finally show ?case .
next
  case (Star r)
  have "w \<in> words (step c (Star r)) \<longleftrightarrow>
      (\<exists>u v. w = u @ v \<and> u \<in> words (step c r) \<and> v \<in> reps (words r))"
    by auto
  also have "\<dots> \<longleftrightarrow> (\<exists>u v. w = u @ v \<and> c # u \<in> words r \<and> v \<in> reps (words r))"
    by (simp add: Star)
  also have "\<dots> \<longleftrightarrow> c # w \<in> words (Star r)"
    by (simp only: words.simps reps_cons)
  finally show ?case .
qed auto

lemma accepts_words: "accepts r w \<longleftrightarrow> w \<in> words r"
  by (induction w arbitrary: r) (simp_all add: emptyOk_words step_words)

lemma words_Lits: "words (Lits t) = {t}"
proof (induction t)
  case Nil
  show ?case by simp
next
  case (Cons c t)
  show ?case by (auto simp add: Cons)
qed

lemma reps_singletons: "w \<in> reps {[c] | c. P c} \<longleftrightarrow> list_all P w"
proof
  assume "w \<in> reps {[c] | c. P c}"
  then show "list_all P w"
    by (induction rule: reps.induct) auto
next
  assume "list_all P w"
  then show "w \<in> reps {[c] | c. P c}"
  proof (induction w)
    case Nil
    show ?case by (rule reps.reps_nil)
  next
    case (Cons c w)
    then have "[c] \<in> {[c] | c. P c}" "w \<in> reps {[c] | c. P c}" by auto
    then have "[c] @ w \<in> reps {[c] | c. P c}" by (rule reps.reps_more)
    then show ?case by simp
  qed
qed

lemma words_idClass: "words idClass = {[c] | c. idChar c}"
  by (auto simp add: idClass_def idChar_def)

lemma words_sourceGroup: "w \<in> words sourceGroup \<longleftrightarrow> idText w"
proof -
  have "w \<in> words sourceGroup \<longleftrightarrow>
      (\<exists>c v. w = c # v \<and> idChar c \<and> v \<in> reps {[c] | c. idChar c})"
  proof
    assume "w \<in> words sourceGroup"
    then obtain u v where "w = u @ v" "u \<in> {[c] | c. idChar c}"
      "v \<in> reps {[c] | c. idChar c}"
      by (auto simp add: sourceGroup_def Plus_def words_idClass)
    then show "\<exists>c v. w = c # v \<and> idChar c \<and> v \<in> reps {[c] | c. idChar c}"
      by auto
  next
    assume "\<exists>c v. w = c # v \<and> idChar c \<and> v \<in> reps {[c] | c. idChar c}"
    then obtain c v where "w = [c] @ v" "idChar c" "v \<in> reps {[c] | c. idChar c}"
      by auto
    then have "\<exists>u v. w = u @ v \<and> u \<in> {[c] | c. idChar c} \<and>
        v \<in> reps {[c] | c. idChar c}"
      by blast
    then show "w \<in> words sourceGroup"
      by (simp add: sourceGroup_def Plus_def words_idClass)
  qed
  also have "\<dots> \<longleftrightarrow> (\<exists>c v. w = c # v \<and> idChar c \<and> list_all idChar v)"
    by (simp only: reps_singletons)
  also have "\<dots> \<longleftrightarrow> idText w"
    by (cases w) (auto simp add: idText_def)
  finally show ?thesis .
qed

lemma words_clusterGroup: "w \<in> words clusterGroup \<longleftrightarrow> idText w \<or> w = ''+''"
  using words_sourceGroup [of w] by (auto simp add: clusterGroup_def sourceGroup_def)

lemma words_pattern:
  "topic \<in> words subscriptionRequestTopicPattern \<longleftrightarrow>
     (\<exists>source clusterName.
        topic = ''sources/'' @ source @ ''/clusters/'' @ clusterName @ ''/status'' \<and>
        idText source \<and> (idText clusterName \<or> clusterName = ''+''))"
proof -
  have "topic \<in> words subscriptionRequestTopicPattern \<longleftrightarrow>
      (\<exists>source clusterName.
         topic = ''sources/'' @ source @ ''/clusters/'' @ clusterName @ ''/status'' \<and>
         source \<in> words sourceGroup \<and> clusterName \<in> words clusterGroup)"
    unfolding subscriptionRequestTopicPattern_def words.simps(5) words_Lits by blast
  then show ?thesis by (simp only: words_sourceGroup words_clusterGroup)
qed

text \<open>Splitting at a byte that the pieces do not contain.\<close>

lemma Split_piece: "sep \<notin> set a \<Longrightarrow> Split a sep = [a]"
  by (induction a) auto

lemma Split_append: "sep \<notin> set a \<Longrightarrow> Split (a @ sep # b) sep = a # Split b sep"
  by (induction a) auto

lemma idChar_no_slash: "idChar c \<Longrightarrow> c \<noteq> CHR ''/''"
  by (auto simp add: idChar_def inRange_def)

lemma idText_no_slash: "idText w \<Longrightarrow> CHR ''/'' \<notin> set w"
  using idChar_no_slash by (auto simp add: idText_def list_all_iff)

lemma Split_topic:
  assumes "CHR ''/'' \<notin> set source" and "CHR ''/'' \<notin> set clusterName"
  shows "Split (''sources/'' @ source @ ''/clusters/'' @ clusterName @ ''/status'') CHR ''/'' =
           [''sources'', source, ''clusters'', clusterName, ''status'']"
proof -
  have "Split (''sources/'' @ source @ ''/clusters/'' @ clusterName @ ''/status'') CHR ''/'' =
      Split (''sources'' @ CHR ''/'' # (source @ CHR ''/'' # (''clusters'' @ CHR ''/'' #
        (clusterName @ CHR ''/'' # ''status'')))) CHR ''/''"
    by simp
  also have "\<dots> = ''sources'' # Split (source @ CHR ''/'' # (''clusters'' @ CHR ''/'' #
        (clusterName @ CHR ''/'' # ''status''))) CHR ''/''"
    by (rule Split_append) simp
  also have "\<dots> = ''sources'' # source # Split (''clusters'' @ CHR ''/'' #
        (clusterName @ CHR ''/'' # ''status'')) CHR ''/''"
    by (simp only: Split_append [OF assms(1)])
  also have "\<dots> = ''sources'' # source # ''clusters'' #
        Split (clusterName @ CHR ''/'' # ''status'') CHR ''/''"
    using Split_append [of "CHR ''/''" "''clusters''"] by simp
  also have "\<dots> = ''sources'' # source # ''clusters'' # clusterName # Split ''status'' CHR ''/''"
    by (simp only: Split_append [OF assms(2)])
  also have "\<dots> = [''sources'', source, ''clusters'', clusterName, ''status'']"
    using Split_piece [of "CHR ''/''" "''status''"] by simp
  finally show ?thesis .
qed

lemma Subscribe_matched:
  assumes "idText source" and "idText clusterName \<or> clusterName = ''+''"
  shows "Subscribe (''sources/'' @ source @ ''/clusters/'' @ clusterName @ ''/status'') =
           Inr (source, clusterName)"
proof -
  let ?topic = "''sources/'' @ source @ ''/clusters/'' @ clusterName @ ''/status''"
  have "MatchString subscriptionRequestTopicPattern ?topic"
    unfolding MatchString_def accepts_words words_pattern using assms by blast
  moreover have "CHR ''/'' \<notin> set source" "CHR ''/'' \<notin> set clusterName"
    using assms idText_no_slash by auto
  then have "Split ?topic CHR ''/'' = [''sources'', source, ''clusters'', clusterName, ''status'']"
    by (rule Split_topic)
  ultimately show ?thesis
    by (simp only: Subscribe_def Let_def) simp
qed

text \<open>
  Claim C4. \<^verbatim>\<open>Subscribe\<close> registers a subscriber exactly when the topic matches
  \<^verbatim>\<open>subscriptionRequestTopicPattern\<close>, and then the source and the cluster name it
  registers are the texts of the two groups of the pattern: the topic is
  \<^verbatim>\<open>sources/\<close>, the source, \<^verbatim>\<open>/clusters/\<close>, the cluster name and \<^verbatim>\<open>/status\<close>, where the source
  matches \<^verbatim>\<open>[a-z0-9-]+\<close> and the cluster name matches \<^verbatim>\<open>[a-z0-9-]+|\+\<close>, that is, the source
  is a non-empty text of lower-case letters, digits and hyphens and the cluster name
  is such a text or \<^verbatim>\<open>+\<close>. The check of the number of pieces that follows the match never
  fails. On any other topic \<^verbatim>\<open>Subscribe\<close> registers nothing and returns an error that
  names the topic; this error is a plain \<^verbatim>\<open>fmt.Errorf\<close> value and carries no gRPC status,
  so it is not an \<^verbatim>\<open>InvalidArgument\<close> status.
\<close>

theorem Subscribe_topic_validation:
  "(Subscribe topic = Inr (source, clusterName) \<longleftrightarrow>
      topic = ''sources/'' @ source @ ''/clusters/'' @ clusterName @ ''/status'' \<and>
      MatchString sourceGroup source \<and> MatchString clusterGroup clusterName) \<and>
   (MatchString sourceGroup source \<longleftrightarrow> idText source) \<and>
   (MatchString clusterGroup clusterName \<longleftrightarrow> idText clusterName \<or> clusterName = ''+'') \<and>
   ((\<exists>registered. Subscribe topic = Inr registered) \<longleftrightarrow>
      MatchString subscriptionRequestTopicPattern topic) \<and>
   (\<not> MatchString subscriptionRequestTopicPattern topic \<longrightarrow>
      Subscribe topic = Inl (InvalidSubscriptionTopic topic)) \<and>
   (\<forall>err. Subscribe topic = Inl err \<longrightarrow>
      err = InvalidSubscriptionTopic topic \<and> GRPCStatus err = None)"
proof -
  have groups: "MatchString sourceGroup source \<longleftrightarrow> idText source"
    "MatchString clusterGroup clusterName \<longleftrightarrow> idText clusterName \<or> clusterName = ''+''"
    by (simp_all add: MatchString_def accepts_words words_sourceGroup words_clusterGroup)
  have matched: "MatchString subscriptionRequestTopicPattern topic \<longleftrightarrow>
      (\<exists>s c. topic = ''sources/'' @ s @ ''/clusters/'' @ c @ ''/status'' \<and>
             idText s \<and> (idText c \<or> c = ''+''))"
    by (simp only: MatchString_def accepts_words words_pattern)
  have refused: "\<not> MatchString subscriptionRequestTopicPattern topic \<longrightarrow>
      Subscribe topic = Inl (InvalidSubscriptionTopic topic)"
    by (simp add: Subscribe_def)
  have registered: "(\<exists>registered. Subscribe topic = Inr registered) \<longleftrightarrow>
      MatchString subscriptionRequestTopicPattern topic"
  proof
    assume "\<exists>registered. Subscribe topic = Inr registered"
    then show "MatchString subscriptionRequestTopicPattern topic"
      using refused by auto
  next
    assume "MatchString subscriptionRequestTopicPattern topic"
    then obtain s c where "topic = ''sources/'' @ s @ ''/clusters/'' @ c @ ''/status''"
      "idText s" "idText c \<or> c = ''+''"
      unfolding matched by blast
    then have "Subscribe topic = Inr (s, c)"
      using Subscribe_matched by blast
    then show "\<exists>registered. Subscribe topic = Inr registered" by blast
  qed
  have pair: "Subscribe topic = Inr (source, clusterName) \<longleftrightarrow>
      topic = ''sources/'' @ source @ ''/clusters/'' @ clusterName @ ''/status'' \<and>
      MatchString sourceGroup source \<and> MatchString clusterGroup clusterName"
  proof
    assume sub: "Subscribe topic = Inr (source, clusterName)"
    then have "MatchString subscriptionRequestTopicPattern topic"
      using registered by blast
    then obtain s c where sc: "topic = ''sources/'' @ s @ ''/clusters/'' @ c @ ''/status''"
      "idText s" "idText c \<or> c = ''+''"
      unfolding matched by blast
    then have "Subscribe topic = Inr (s, c)"
      using Subscribe_matched by blast
    with sub have "s = source" "c = clusterName" by simp_all
    with sc show "topic = ''sources/'' @ source @ ''/clusters/'' @ clusterName @ ''/status'' \<and>
      MatchString sourceGroup source \<and> MatchString clusterGroup clusterName"
      by (simp add: groups)
  next
    assume "topic = ''sources/'' @ source @ ''/clusters/'' @ clusterName @ ''/status'' \<and>
      MatchString sourceGroup source \<and> MatchString clusterGroup clusterName"
    then show "Subscribe topic = Inr (source, clusterName)"
      using Subscribe_matched groups by blast
  qed
  have plain: "\<forall>err. Subscribe topic = Inl err \<longrightarrow>
      err = InvalidSubscriptionTopic topic \<and> GRPCStatus err = None"
    by (auto simp add: Subscribe_def Let_def GRPCStatus_def split: if_splits)
  from pair groups registered refused plain show ?thesis by blast
qed

lemma example_topic_refused:
  "\<not> MatchString subscriptionRequestTopicPattern ''sources/Maestro/clusters/+/status''"
  by (simp add: MatchString_def subscriptionRequestTopicPattern_def sourceGroup_def
      clusterGroup_def Plus_def idClass_def inRange_def)

text \<open>A topic for every cluster of the source \<^verbatim>\<open>maestro\<close> is accepted and registers
  the source \<^verbatim>\<open>maestro\<close> and the cluster name \<^verbatim>\<open>+\<close>; with a capital letter in the source
  the topic does not match and is refused.\<close>

theorem Subscribe_topic_validation_witness:
  "Subscribe ''sources/maestro/clusters/+/status'' = Inr (''maestro'', ''+'') \<and>
   MatchString subscriptionRequestTopicPattern ''sources/maestro/clusters/+/status'' \<and>
   \<not> MatchString subscriptionRequestTopicPattern ''sources/Maestro/clusters/+/status'' \<and>
   Subscribe ''sources/Maestro/clusters/+/status'' =
     Inl (InvalidSubscriptionTopic ''sources/Maestro/clusters/+/status'')"
proof -
  have accepted: "Subscribe ''sources/maestro/clusters/+/status'' = Inr (''maestro'', ''+'')"
    using Subscribe_topic_validation [of "''sources/maestro/clusters/+/status''" "''maestro''"
        "''+''"]
    by (simp add: idText_def idChar_def inRange_def)
  then have "\<exists>registered. Subscribe ''sources/maestro/clusters/+/status'' = Inr registered"
    by blast
  then have matched: "MatchString subscriptionRequestTopicPattern
      ''sources/maestro/clusters/+/status''"
    using Subscribe_topic_validation [of "''sources/maestro/clusters/+/status''"] by blast
  have refused: "Subscribe ''sources/Maestro/clusters/+/status'' =
      Inl (InvalidSubscriptionTopic ''sources/Maestro/clusters/+/status'')"
    using Subscribe_topic_validation [of "''sources/Maestro/clusters/+/status''"]
      example_topic_refused by blast
  from accepted matched example_topic_refused refused show ?thesis by blast
qed

text \<open>The claim as the spec words it fails on the topic with the capital letter: the
  error \<^verbatim>\<open>Subscribe\<close> returns for it is the \<^verbatim>\<open>fmt.Errorf\<close> value "invalid subscription topic
  ...", which carries no gRPC status, and so not the status \<^verbatim>\<open>InvalidArgument\<close>.\<close>

theorem Subscribe_topic_validation_counterexample:
  "Subscribe ''sources/Maestro/clusters/+/status'' =
     Inl (InvalidSubscriptionTopic ''sources/Maestro/clusters/+/status'') \<and>
   GRPCStatus (InvalidSubscriptionTopic ''sources/Maestro/clusters/+/status'') \<noteq>
     Some InvalidArgument"
  using example_topic_refused by (simp add: Subscribe_def GRPCStatus_def)

end
